theory Spec2Isabelle
  imports Main
begin

section \<open>Data model of the custom database role resource\<close>

text \<open>
  The typed request and response bodies of the role API, as the resource controller
  uses them: a role has a name, a list of actions and a list of inherited roles; an
  action names a list of resources; a resource carries a cluster flag, a database and
  a collection.
\<close>

record Resource =
  Collection :: string
  Db :: string
  Cluster :: bool

record Action =
  Action :: string
  Resources :: "Resource list"

record InheritedRole =
  IR_Db :: string
  IR_Role :: string

record CustomDBRole =
  Actions :: "Action list"
  InheritedRoles :: "InheritedRole list"
  RoleName :: string

text \<open>
  A Go \<open>error\<close> value. \<open>Errorf\<close> carries the message of an error built with
  \<open>fmt.Errorf\<close> or \<open>errors.New\<close>, \<open>ArgError\<close> the argument name and reason of the API
  client's argument error, and \<open>Panic\<close> stands for a run-time panic (a failed type
  assertion), which the model returns as a value.
\<close>

datatype error = ArgError string string | Errorf string | Panic string

section \<open>Generic attribute values\<close>

text \<open>
  The values that pass between the controller and the attribute store as
  \<open>interface{}\<close>, each with its dynamic type: a string, a bool, a \<open>[]interface{}\<close>
  (\<open>GList\<close>), a \<open>[]map[string]interface{}\<close> (\<open>GMaps\<close>, what the flatten helpers
  return), a \<open>*schema.Set\<close> with its items (\<open>GSet\<close>, what the store returns for a field
  that the schema declares \<open>schema.TypeSet\<close>), and a \<open>map[string]interface{}\<close>
  (\<open>GMap\<close>). \<open>GNil\<close> is the nil interface, which indexing a Go map at an absent key
  returns.
\<close>

datatype gval =
    GNil
  | GBool bool
  | GString string
  | GList "gval list"
  | GMaps "(string \<Rightarrow> gval option) list"
  | GSet "gval list"
  | GMap "string \<Rightarrow> gval option"

text \<open>\<open>m[key]\<close> on a \<open>map[string]interface{}\<close>: the nil interface when the key is absent.\<close>

definition index :: "(string \<rightharpoonup> gval) \<Rightarrow> string \<Rightarrow> gval" where
  "index m key = (case m key of None \<Rightarrow> GNil | Some v \<Rightarrow> v)"

text \<open>
  The single-value type assertions \<open>v.(T)\<close>. Go panics when the dynamic type of \<open>v\<close> is
  not \<open>T\<close>, in particular when \<open>v\<close> is nil. \<open>assertList\<close> is \<open>v.([]interface{})\<close>: it
  fails on a slice of another element type and on a set.
\<close>

definition conversion_panic :: error where
  "conversion_panic = Panic ''interface conversion''"

fun assertString :: "gval \<Rightarrow> error + string" where
  "assertString (GString s) = Inr s"
| "assertString _ = Inl conversion_panic"

fun assertBool :: "gval \<Rightarrow> error + bool" where
  "assertBool (GBool b) = Inr b"
| "assertBool _ = Inl conversion_panic"

fun assertList :: "gval \<Rightarrow> error + gval list" where
  "assertList (GList xs) = Inr xs"
| "assertList _ = Inl conversion_panic"

fun assertMap :: "gval \<Rightarrow> error + (string \<rightharpoonup> gval)" where
  "assertMap (GMap m) = Inr m"
| "assertMap _ = Inl conversion_panic"

section \<open>Validation of the action and resource shape\<close>

definition exclusive_msg :: string where
  "exclusive_msg = ''setting `actions.resources.cluster` is exclusive with `actions.resources.collection_name` and `actions.resources.database_name`''"

definition missing_msg :: string where
  "missing_msg = ''either `actions.resources.cluster` or both `actions.resources.collection_name` and `actions.resources.database_name` must be set''"

text \<open>The inner loop of \<open>validateActions\<close>, over the resources of one action.\<close>

fun validateResources :: "Resource list \<Rightarrow> error option" where
  "validateResources [] = None"
| "validateResources (resource # rest) =
     (if Cluster resource then
        (if Collection resource \<noteq> [] \<or> Db resource \<noteq> [] then Some (Errorf exclusive_msg)
         else validateResources rest)
      else
        (if Collection resource = [] \<or> Db resource = [] then Some (Errorf missing_msg)
         else validateResources rest))"

text \<open>The outer loop, over the actions; the first error found is returned.\<close>

fun validateActionList :: "Action list \<Rightarrow> error option" where
  "validateActionList [] = None"
| "validateActionList (action # rest) =
     (case validateResources (Resources action) of
        Some err \<Rightarrow> Some err
      | None \<Rightarrow> validateActionList rest)"

definition validateActions :: "CustomDBRole \<Rightarrow> error option" where
  "validateActions customDBRoleReq = validateActionList (Actions customDBRoleReq)"

section \<open>The collaborators of the resource controller\<close>

text \<open>
  The controller works on a \<open>schema.ResourceData\<close> handle \<open>d\<close>, on the role service of
  the API client (\<open>conn.CustomDBRoles\<close>) and with the identifier codec
  (\<open>encodeStateID\<close>, \<open>decodeStateID\<close>). None of them is defined in the controller's
  file, so they are parameters: \<open>'d\<close> is the type of the handle, \<open>'r\<close> the state of the
  remote service. A service call returns the message of its error (\<open>Inl\<close>) or its
  result, and the next remote state. \<open>d.Set\<close> returns an error or nil, and the handle.
\<close>

record ('d, 'r) env =
  d_Get :: "'d \<Rightarrow> string \<Rightarrow> gval"
  d_GetOk :: "'d \<Rightarrow> string \<Rightarrow> gval \<times> bool"
  d_HasChange :: "'d \<Rightarrow> string \<Rightarrow> bool"
  d_Id :: "'d \<Rightarrow> string"
  d_SetId :: "'d \<Rightarrow> string \<Rightarrow> 'd"
  d_Set :: "'d \<Rightarrow> string \<Rightarrow> gval \<Rightarrow> string option \<times> 'd"
  roles_Create :: "string \<Rightarrow> CustomDBRole \<Rightarrow> 'r \<Rightarrow> (string + CustomDBRole) \<times> 'r"
  roles_Get :: "string \<Rightarrow> string \<Rightarrow> 'r \<Rightarrow> (string + CustomDBRole) \<times> 'r"
  roles_Update :: "string \<Rightarrow> string \<Rightarrow> CustomDBRole \<Rightarrow> 'r \<Rightarrow> (string + CustomDBRole) \<times> 'r"
  roles_Delete :: "string \<Rightarrow> string \<Rightarrow> 'r \<Rightarrow> string option \<times> 'r"
  encodeStateID :: "(string \<rightharpoonup> string) \<Rightarrow> string"
  decodeStateID :: "string \<Rightarrow> (string \<rightharpoonup> string)"

section \<open>Shape conversion: expand and flatten\<close>

text \<open>The loop of \<open>expandActionResources\<close>; a failed type assertion ends it with a panic.\<close>

fun expandActionResources :: "gval list \<Rightarrow> error + Resource list" where
  "expandActionResources [] = Inr []"
| "expandActionResources (v # rest) =
     (case assertMap v of Inl e \<Rightarrow> Inl e | Inr resourceMap \<Rightarrow>
     (case assertBool (index resourceMap ''cluster'') of Inl e \<Rightarrow> Inl e | Inr cluster \<Rightarrow>
     (case (if cluster then
              (case assertBool (index resourceMap ''cluster'') of Inl e \<Rightarrow> Inl e
               | Inr c \<Rightarrow> Inr \<lparr>Collection = [], Db = [], Cluster = c\<rparr>)
            else
              (case assertString (index resourceMap ''database_name'') of Inl e \<Rightarrow> Inl e
               | Inr db \<Rightarrow>
              (case assertString (index resourceMap ''collection_name'') of Inl e \<Rightarrow> Inl e
               | Inr coll \<Rightarrow> Inr \<lparr>Collection = coll, Db = db, Cluster = False\<rparr>)))
      of Inl e \<Rightarrow> Inl e | Inr r \<Rightarrow>
     (case expandActionResources rest of Inl e \<Rightarrow> Inl e | Inr rs \<Rightarrow> Inr (r # rs)))))"

text \<open>The loop of \<open>expandActions\<close> over the list read from the store.\<close>

fun expandActionList :: "gval list \<Rightarrow> error + Action list" where
  "expandActionList [] = Inr []"
| "expandActionList (a # rest) =
     (case assertMap a of Inl e \<Rightarrow> Inl e | Inr actionMap \<Rightarrow>
     (case assertString (index actionMap ''action'') of Inl e \<Rightarrow> Inl e | Inr name \<Rightarrow>
     (case assertList (index actionMap ''resources'') of Inl e \<Rightarrow> Inl e | Inr resources \<Rightarrow>
     (case expandActionResources resources of Inl e \<Rightarrow> Inl e | Inr rs \<Rightarrow>
     (case expandActionList rest of Inl e \<Rightarrow> Inl e
      | Inr as \<Rightarrow> Inr (\<lparr>Action = name, Resources = rs\<rparr> # as))))))"

definition expandActions :: "('d, 'r) env \<Rightarrow> 'd \<Rightarrow> error + Action list" where
  "expandActions env d =
     (case d_GetOk env d ''actions'' of (v, ok) \<Rightarrow>
        if ok then
          (case assertList v of Inl e \<Rightarrow> Inl e
           | Inr rs \<Rightarrow> if length rs > 0 then expandActionList rs else Inr [])
        else Inr [])"

fun flattenActionResources :: "Resource list \<Rightarrow> (string \<rightharpoonup> gval) list" where
  "flattenActionResources [] = []"
| "flattenActionResources (v # rest) =
     (if Cluster v then [''cluster'' \<mapsto> GBool (Cluster v)]
      else [''database_name'' \<mapsto> GString (Db v), ''collection_name'' \<mapsto> GString (Collection v)])
     # flattenActionResources rest"

fun flattenActions :: "Action list \<Rightarrow> (string \<rightharpoonup> gval) list" where
  "flattenActions [] = []"
| "flattenActions (v # rest) =
     [''action'' \<mapsto> GString (Action v),
      ''resources'' \<mapsto> GMaps (flattenActionResources (Resources v))]
     # flattenActions rest"

text \<open>The loop of \<open>expandInheritedRoles\<close> over the list read from the store.\<close>

fun expandInheritedRoleList :: "gval list \<Rightarrow> error + InheritedRole list" where
  "expandInheritedRoleList [] = Inr []"
| "expandInheritedRoleList (r # rest) =
     (case assertMap r of Inl e \<Rightarrow> Inl e | Inr roleMap \<Rightarrow>
     (case assertString (index roleMap ''database_name'') of Inl e \<Rightarrow> Inl e | Inr db \<Rightarrow>
     (case assertString (index roleMap ''role_name'') of Inl e \<Rightarrow> Inl e | Inr role \<Rightarrow>
     (case expandInheritedRoleList rest of Inl e \<Rightarrow> Inl e
      | Inr roles \<Rightarrow> Inr (\<lparr>IR_Db = db, IR_Role = role\<rparr> # roles)))))"

definition expandInheritedRoles :: "('d, 'r) env \<Rightarrow> 'd \<Rightarrow> error + InheritedRole list" where
  "expandInheritedRoles env d =
     (case d_GetOk env d ''inherited_roles'' of (v, ok) \<Rightarrow>
        if ok then
          (case assertList v of Inl e \<Rightarrow> Inl e
           | Inr rs \<Rightarrow> if length rs > 0 then expandInheritedRoleList rs else Inr [])
        else Inr [])"

fun flattenInheritedRoles :: "InheritedRole list \<Rightarrow> (string \<rightharpoonup> gval) list" where
  "flattenInheritedRoles [] = []"
| "flattenInheritedRoles (v # rest) =
     [''database_name'' \<mapsto> GString (IR_Db v), ''role_name'' \<mapsto> GString (IR_Role v)]
     # flattenInheritedRoles rest"

section \<open>The lifecycle operations of the controller\<close>

text \<open>
  The state an operation works on: the handle \<open>d\<close>, the remote service, and the calls
  made to the role service so far, in order.
\<close>

datatype call =
    CreateCall string CustomDBRole
  | GetCall string string
  | UpdateCall string string CustomDBRole
  | DeleteCall string string

record ('d, 'r) st =
  handle :: 'd
  remote :: 'r
  calls :: "call list"

text \<open>\<open>ids[key]\<close> on a \<open>map[string]string\<close>: the empty string when the key is absent.\<close>

definition lookupStr :: "(string \<rightharpoonup> string) \<Rightarrow> string \<Rightarrow> string" where
  "lookupStr ids key = (case ids key of None \<Rightarrow> [] | Some v \<Rightarrow> v)"

definition resourceMongoDBAtlasCustomDBRoleRead ::
  "('d, 'r) env \<Rightarrow> ('d, 'r) st \<Rightarrow> error option \<times> ('d, 'r) st" where
  "resourceMongoDBAtlasCustomDBRoleRead env s =
     (let ids = decodeStateID env (d_Id env (handle s));
          projectID = lookupStr ids ''project_id'';
          roleName = lookupStr ids ''role_name''
      in case roles_Get env projectID roleName (remote s) of (res, remote') \<Rightarrow>
         let s1 = s\<lparr>remote := remote', calls := calls s @ [GetCall projectID roleName]\<rparr>
         in case res of
              Inl err \<Rightarrow>
                (Some (Errorf (''error getting custom db role information: '' @ err)), s1)
            | Inr customDBRole \<Rightarrow>
         (case d_Set env (handle s1) ''role_name'' (GString (RoleName customDBRole)) of
            (Some err, d1) \<Rightarrow>
              (Some (Errorf (''error setting `role_name` for custom db role ('' @
                             d_Id env d1 @ ''): '' @ err)), s1\<lparr>handle := d1\<rparr>)
          | (None, d1) \<Rightarrow>
         (case d_Set env d1 ''actions''
                 (GMaps (flattenActions (Actions customDBRole))) of
            (Some err, d2) \<Rightarrow>
              (Some (Errorf (''error setting `actions` for custom db role ('' @
                             d_Id env d2 @ ''): '' @ err)), s1\<lparr>handle := d2\<rparr>)
          | (None, d2) \<Rightarrow>
         (case d_Set env d2 ''inherited_roles''
                 (GMaps (flattenInheritedRoles (InheritedRoles customDBRole))) of
            (Some err, d3) \<Rightarrow>
              (Some (Errorf (''error setting `inherited_roles` for custom db role ('' @
                             d_Id env d3 @ ''): '' @ err)), s1\<lparr>handle := d3\<rparr>)
          | (None, d3) \<Rightarrow> (None, s1\<lparr>handle := d3\<rparr>)))))"

definition resourceMongoDBAtlasCustomDBRoleCreate ::
  "('d, 'r) env \<Rightarrow> ('d, 'r) st \<Rightarrow> error option \<times> ('d, 'r) st" where
  "resourceMongoDBAtlasCustomDBRoleCreate env s =
     (let d = handle s in
      case assertString (d_Get env d ''project_id'') of Inl e \<Rightarrow> (Some e, s)
      | Inr projectID \<Rightarrow>
     (case assertString (d_Get env d ''role_name'') of Inl e \<Rightarrow> (Some e, s)
      | Inr roleName \<Rightarrow>
     (case expandActions env d of Inl e \<Rightarrow> (Some e, s) | Inr actions \<Rightarrow>
     (case expandInheritedRoles env d of Inl e \<Rightarrow> (Some e, s) | Inr inheritedRoles \<Rightarrow>
      let customDBRoleReq =
            \<lparr>Actions = actions, InheritedRoles = inheritedRoles, RoleName = roleName\<rparr>
      in case validateActions customDBRoleReq of
           Some err \<Rightarrow> (Some err, s)
         | None \<Rightarrow>
     (case roles_Create env projectID customDBRoleReq (remote s) of (res, remote') \<Rightarrow>
      let s1 = s\<lparr>remote := remote',
                  calls := calls s @ [CreateCall projectID customDBRoleReq]\<rparr>
      in case res of
           Inl err \<Rightarrow> (Some (Errorf (''error creating custom db role: '' @ err)), s1)
         | Inr customDBRoleRes \<Rightarrow>
             resourceMongoDBAtlasCustomDBRoleRead env
               (s1\<lparr>handle := d_SetId env d
                     (encodeStateID env [''project_id'' \<mapsto> projectID,
                                         ''role_name'' \<mapsto> RoleName customDBRoleRes])\<rparr>))))))"

definition resourceMongoDBAtlasCustomDBRoleUpdate ::
  "('d, 'r) env \<Rightarrow> ('d, 'r) st \<Rightarrow> error option \<times> ('d, 'r) st" where
  "resourceMongoDBAtlasCustomDBRoleUpdate env s =
     (let d = handle s;
          ids = decodeStateID env (d_Id env d);
          projectID = lookupStr ids ''project_id'';
          roleName = lookupStr ids ''role_name''
      in case roles_Get env projectID roleName (remote s) of (res, remote') \<Rightarrow>
         let s1 = s\<lparr>remote := remote', calls := calls s @ [GetCall projectID roleName]\<rparr>
         in case res of
              Inl err \<Rightarrow>
                (Some (Errorf (''error getting custom db role information: '' @ err)), s1)
            | Inr customDBRole \<Rightarrow>
         (case (if d_HasChange env d ''actions''
                then (case expandActions env d of Inl e \<Rightarrow> Inl e
                      | Inr actions \<Rightarrow> Inr (customDBRole\<lparr>Actions := actions\<rparr>))
                else Inr customDBRole) of
            Inl e \<Rightarrow> (Some e, s1)
          | Inr role1 \<Rightarrow>
         (case validateActions role1 of
            Some err \<Rightarrow> (Some err, s1)
          | None \<Rightarrow>
         (case (if d_HasChange env d ''inherited_roles''
                then (case expandInheritedRoles env d of Inl e \<Rightarrow> Inl e
                      | Inr roles \<Rightarrow> Inr (role1\<lparr>InheritedRoles := roles\<rparr>))
                else Inr role1) of
            Inl e \<Rightarrow> (Some e, s1)
          | Inr role2 \<Rightarrow>
         (case roles_Update env projectID roleName role2 (remote s1) of (res2, remote'') \<Rightarrow>
          let s2 = s1\<lparr>remote := remote'',
                       calls := calls s1 @ [UpdateCall projectID roleName role2]\<rparr>
          in case res2 of
               Inl err \<Rightarrow>
                 (Some (Errorf (''error updating custom db role ('' @ roleName @ ''): '' @ err)),
                  s2)
             | Inr _ \<Rightarrow> resourceMongoDBAtlasCustomDBRoleRead env s2)))))"

definition resourceMongoDBAtlasCustomDBRoleDelete ::
  "('d, 'r) env \<Rightarrow> ('d, 'r) st \<Rightarrow> error option \<times> ('d, 'r) st" where
  "resourceMongoDBAtlasCustomDBRoleDelete env s =
     (let ids = decodeStateID env (d_Id env (handle s));
          projectID = lookupStr ids ''project_id'';
          roleName = lookupStr ids ''role_name''
      in case roles_Delete env projectID roleName (remote s) of (res, remote') \<Rightarrow>
         let s1 = s\<lparr>remote := remote', calls := calls s @ [DeleteCall projectID roleName]\<rparr>
         in case res of
              Some err \<Rightarrow>
                (Some (Errorf (''error deleting custom db role ('' @ roleName @ ''): '' @ err)),
                 s1)
            | None \<Rightarrow> (None, s1))"

subsection \<open>Import\<close>

text \<open>
  \<open>strings.Index\<close> followed by the two slices the split loop takes: the text before the
  first occurrence of a non-empty separator and the text after it, if there is one.
\<close>

fun cut :: "string \<Rightarrow> string \<Rightarrow> (string \<times> string) option" where
  "cut sep [] = None"
| "cut sep (c # cs) =
     (if take (length sep) (c # cs) = sep then Some ([], drop (length sep) (c # cs))
      else (case cut sep cs of None \<Rightarrow> None
            | Some (before, after) \<Rightarrow> Some (c # before, after)))"

text \<open>
  \<open>strings.SplitN(s, sep, n)\<close> for a non-empty separator and \<open>n \<ge> 0\<close>: at most \<open>n\<close>
  pieces, the last one the unsplit remainder.
\<close>

fun SplitN :: "string \<Rightarrow> string \<Rightarrow> nat \<Rightarrow> string list" where
  "SplitN s sep 0 = []"
| "SplitN s sep (Suc 0) = [s]"
| "SplitN s sep (Suc (Suc n)) =
     (case cut sep s of None \<Rightarrow> [s]
      | Some (before, after) \<Rightarrow> before # SplitN after sep (Suc n))"

definition import_format_msg :: string where
  "import_format_msg = ''import format error: to import a custom db role use the format {project_id}-{role_name}''"

definition resourceMongoDBAtlasCustomDBRoleImportState ::
  "('d, 'r) env \<Rightarrow> ('d, 'r) st \<Rightarrow> (error + 'd list) \<times> ('d, 'r) st" where
  "resourceMongoDBAtlasCustomDBRoleImportState env s =
     (let d = handle s; parts = SplitN (d_Id env d) ''-'' 2 in
      if length parts \<noteq> 2 then (Inl (Errorf import_format_msg), s)
      else
        let projectID = parts ! 0; roleName = parts ! 1
        in case roles_Get env projectID roleName (remote s) of (res, remote') \<Rightarrow>
           let s1 = s\<lparr>remote := remote', calls := calls s @ [GetCall projectID roleName]\<rparr>
           in case res of
                Inl err \<Rightarrow>
                  (Inl (Errorf (''couldn't import custom db role '' @ roleName @
                                '' in project '' @ projectID @ '', error: '' @ err)), s1)
              | Inr r \<Rightarrow>
                  let d1 = d_SetId env d
                             (encodeStateID env [''project_id'' \<mapsto> projectID,
                                                 ''role_name'' \<mapsto> RoleName r]);
                      d2 = snd (d_Set env d1 ''project_id'' (GString projectID))
                  in (Inr [d2], s1\<lparr>handle := d2\<rparr>))"

section \<open>The Global Clusters API client\<close>

record ManagedNamespace =
  MN_Db :: string
  MN_Collection :: string
  CustomShardKey :: string

record CustomZoneMapping =
  Location :: string
  Zone :: string

record CustomZoneMappingsRequest =
  CustomZoneMappings :: "CustomZoneMapping list"

record GlobalCluster =
  GC_CustomZoneMapping :: "string \<rightharpoonup> string"
  ManagedNamespaces :: "ManagedNamespace list"

text \<open>
  The body argument of \<open>NewRequest\<close> (an \<open>interface{}\<close>): nil, or one of the two request
  structs. An \<open>http.Request\<close> is kept as its method, its URL (path and raw query) and
  its body.
\<close>

datatype body =
    NoBody
  | NamespaceBody ManagedNamespace
  | ZoneMappingsBody CustomZoneMappingsRequest

record url =
  Path :: string
  RawQuery :: string

record request =
  Method :: string
  URL :: url
  Body :: body

text \<open>\<open>url.Values\<close>: the values of each key, in the order they were added.\<close>

type_synonym Values = "(string \<times> string list) list"

text \<open>
  The client \<open>s.client\<close> is defined outside the service file: \<open>NewRequest\<close> builds a
  request or fails, \<open>Do\<close> sends it and returns the response handle together with an
  error or the decoded body. \<open>Query\<close> is \<open>URL.Query()\<close>, the parsed form of the raw query
  of a request's URL. \<open>'resp\<close> is the type of the response handle.
\<close>

record 'resp client =
  NewRequest :: "string \<Rightarrow> string \<Rightarrow> body \<Rightarrow> error + request"
  Do :: "request \<Rightarrow> 'resp option \<times> (error + GlobalCluster)"
  Query :: "url \<Rightarrow> Values"

text \<open>What a service operation asked of the client, in order.\<close>

datatype event =
    NewRequestCall string string body
  | DoCall request

definition MethodGet :: string where "MethodGet = ''GET''"
definition MethodPost :: string where "MethodPost = ''POST''"
definition MethodDelete :: string where "MethodDelete = ''DELETE''"

text \<open>\<open>fmt.Sprintf(globalClustersBasePath, groupID, clusterName, suffix)\<close>.\<close>

definition globalClustersBasePath :: "string \<Rightarrow> string \<Rightarrow> string \<Rightarrow> string" where
  "globalClustersBasePath groupID clusterName suffix =
     ''groups/'' @ groupID @ ''/clusters/'' @ clusterName @ ''/globalWrites/'' @ suffix"

text \<open>
  The tail every operation shares: send the request, and return the decoded body with
  the response handle, or nil, the handle and the error.
\<close>

definition send :: "'resp client \<Rightarrow> request \<Rightarrow>
    GlobalCluster option \<times> 'resp option \<times> error option" where
  "send c req =
     (case Do c req of
        (resp, Inl err) \<Rightarrow> (None, resp, Some err)
      | (resp, Inr root) \<Rightarrow> (Some root, resp, None))"

definition Get :: "'resp client \<Rightarrow> string \<Rightarrow> string \<Rightarrow>
    (GlobalCluster option \<times> 'resp option \<times> error option) \<times> event list" where
  "Get c groupID clusterName =
     (if clusterName = [] then ((None, None, Some (ArgError ''username'' ''must be set'')), [])
      else
        let path = ''groups/'' @ groupID @ ''/clusters/'' @ clusterName @ ''/globalWrites''
        in case NewRequest c MethodGet path NoBody of
             Inl err \<Rightarrow> ((None, None, Some err), [NewRequestCall MethodGet path NoBody])
           | Inr req \<Rightarrow> (send c req, [NewRequestCall MethodGet path NoBody, DoCall req]))"

definition AddManagedNamespace :: "'resp client \<Rightarrow> string \<Rightarrow> string \<Rightarrow>
    ManagedNamespace option \<Rightarrow>
    (GlobalCluster option \<times> 'resp option \<times> error option) \<times> event list" where
  "AddManagedNamespace c groupID clusterName createRequest =
     (case createRequest of
        None \<Rightarrow> ((None, None, Some (ArgError ''createRequest'' ''cannot be nil'')), [])
      | Some ns \<Rightarrow>
          let path = globalClustersBasePath groupID clusterName ''managedNamespaces''
          in case NewRequest c MethodPost path (NamespaceBody ns) of
               Inl err \<Rightarrow>
                 ((None, None, Some err), [NewRequestCall MethodPost path (NamespaceBody ns)])
             | Inr req \<Rightarrow>
                 (send c req, [NewRequestCall MethodPost path (NamespaceBody ns), DoCall req]))"

subsection \<open>Query parameters\<close>

text \<open>\<open>Values.Add\<close>: append the value to the values of the key.\<close>

fun Add :: "Values \<Rightarrow> string \<Rightarrow> string \<Rightarrow> Values" where
  "Add [] key val = [(key, [val])]"
| "Add ((k, vs) # rest) key val =
     (if k = key then (k, vs @ [val]) # rest else (k, vs) # Add rest key val)"

text \<open>Byte-wise lexicographic order on strings, the order of \<open>sort.Strings\<close>.\<close>

fun str_le :: "string \<Rightarrow> string \<Rightarrow> bool" where
  "str_le [] t = True"
| "str_le (c # cs) [] = False"
| "str_le (c # cs) (d # ds) =
     (if (of_char c :: nat) < of_char d then True
      else if (of_char c :: nat) = of_char d then str_le cs ds
      else False)"

fun insert_key :: "string \<times> string list \<Rightarrow> Values \<Rightarrow> Values" where
  "insert_key kv [] = [kv]"
| "insert_key kv (kv' # rest) =
     (if str_le (fst kv) (fst kv') then kv # kv' # rest else kv' # insert_key kv rest)"

fun sort_keys :: "Values \<Rightarrow> Values" where
  "sort_keys [] = []"
| "sort_keys (kv # rest) = insert_key kv (sort_keys rest)"

text \<open>
  \<open>url.QueryEscape\<close>: letters, digits and \<open>-_.~\<close> stay, a space becomes \<open>+\<close>, every
  other byte becomes \<open>%\<close> and two upper-case hexadecimal digits.
\<close>

definition shouldEscape :: "char \<Rightarrow> bool" where
  "shouldEscape c =
     (let n = (of_char c :: nat) in
      \<not> ((97 \<le> n \<and> n \<le> 122) \<or> (65 \<le> n \<and> n \<le> 90) \<or> (48 \<le> n \<and> n \<le> 57) \<or>
         c \<in> set ''-_.~''))"

definition upperhex :: "nat \<Rightarrow> char" where
  "upperhex n = ''0123456789ABCDEF'' ! (n mod 16)"

fun QueryEscape :: "string \<Rightarrow> string" where
  "QueryEscape [] = []"
| "QueryEscape (c # cs) =
     (if shouldEscape c then
        (if c = CHR '' '' then CHR ''+'' # QueryEscape cs
         else CHR ''%'' # upperhex (of_char c div 16) # upperhex (of_char c mod 16)
              # QueryEscape cs)
      else c # QueryEscape cs)"

text \<open>
  \<open>Values.Encode\<close>: the keys in sorted order, each value as \<open>key=value\<close>, both escaped,
  joined by \<open>&\<close>.
\<close>

fun join_amp :: "string list \<Rightarrow> string" where
  "join_amp [] = []"
| "join_amp [p] = p"
| "join_amp (p # q # rest) = p @ ''&'' @ join_amp (q # rest)"

definition Encode :: "Values \<Rightarrow> string" where
  "Encode v =
     join_amp (concat (map (\<lambda>(k, vs). map (\<lambda>val. QueryEscape k @ ''='' @ QueryEscape val) vs)
                           (sort_keys v)))"

definition DeleteManagedNamespace :: "'resp client \<Rightarrow> string \<Rightarrow> string \<Rightarrow>
    ManagedNamespace option \<Rightarrow>
    (GlobalCluster option \<times> 'resp option \<times> error option) \<times> event list" where
  "DeleteManagedNamespace c groupID clusterName deleteRequest =
     (case deleteRequest of
        None \<Rightarrow> ((None, None, Some (ArgError ''createRequest'' ''cannot be nil'')), [])
      | Some ns \<Rightarrow>
          let path = globalClustersBasePath groupID clusterName ''managedNamespaces''
          in case NewRequest c MethodDelete path NoBody of
               Inl err \<Rightarrow> ((None, None, Some err), [NewRequestCall MethodDelete path NoBody])
             | Inr req \<Rightarrow>
                 let q = Query c (URL req);
                     q = Add q ''collection'' (MN_Collection ns);
                     q = Add q ''db'' (MN_Db ns);
                     req = req\<lparr>URL := (URL req)\<lparr>RawQuery := Encode q\<rparr>\<rparr>
                 in (send c req, [NewRequestCall MethodDelete path NoBody, DoCall req]))"

definition AddCustomZoneMappings :: "'resp client \<Rightarrow> string \<Rightarrow> string \<Rightarrow>
    CustomZoneMappingsRequest option \<Rightarrow>
    (GlobalCluster option \<times> 'resp option \<times> error option) \<times> event list" where
  "AddCustomZoneMappings c groupID clusterName createRequest =
     (case createRequest of
        None \<Rightarrow> ((None, None, Some (ArgError ''createRequest'' ''cannot be nil'')), [])
      | Some zm \<Rightarrow>
          let path = globalClustersBasePath groupID clusterName ''customZoneMapping''
          in case NewRequest c MethodPost path (ZoneMappingsBody zm) of
               Inl err \<Rightarrow>
                 ((None, None, Some err), [NewRequestCall MethodPost path (ZoneMappingsBody zm)])
             | Inr req \<Rightarrow>
                 (send c req,
                  [NewRequestCall MethodPost path (ZoneMappingsBody zm), DoCall req]))"

definition DeleteCustomZoneMappings :: "'resp client \<Rightarrow> string \<Rightarrow> string \<Rightarrow>
    (GlobalCluster option \<times> 'resp option \<times> error option) \<times> event list" where
  "DeleteCustomZoneMappings c groupID clusterName =
     (let path = globalClustersBasePath groupID clusterName ''customZoneMapping''
      in case NewRequest c MethodDelete path NoBody of
           Inl err \<Rightarrow> ((None, None, Some err), [NewRequestCall MethodDelete path NoBody])
         | Inr req \<Rightarrow> (send c req, [NewRequestCall MethodDelete path NoBody, DoCall req]))"

section \<open>The resource schema and its role name patterns\<close>

text \<open>
  \<open>resourceMongoDBAtlasCustomDBRole\<close> builds the schema of the resource. Its only
  computation is \<open>regexp.MustCompile\<close> on the three patterns of the \<open>role_name\<close> check,
  which panics when Go's pattern parser (package \<open>regexp/syntax\<close>, Perl mode) rejects the
  pattern. The parser below follows Go's on the patterns written with literal ASCII
  characters, \<open>( ) | ^ $ . * + ?\<close>, groups that open with \<open>(?\<close>, bracket classes of plain
  characters, ranges and the Perl classes, and the Perl classes outside brackets. It
  keeps of Go's parse stack what decides acceptance: the number of open groups, and
  whether the top of the stack is an expression a repetition can apply to. On anything
  else (other escapes, counted repetition, named groups and classes, non-ASCII text,
  patterns of more than 1000 characters) it answers \<open>NotModelled\<close>.
\<close>

definition backslash :: char where "backslash = CHR 0x5C"

datatype parsed = Parsed | SyntaxError string | NotModelled

text \<open>
  \<open>parsePerlFlags\<close>, on the text after \<open>(?\<close>: flags \<open>i m s U\<close>, one \<open>-\<close> to negate, closed by
  \<open>)\<close>, or by \<open>:\<close> which opens a group. Any other character is an error: there is no
  lookahead \<open>(?=\<close>, \<open>(?!\<close> or lookbehind in Go's syntax. The result is the rest of the
  pattern and whether a group was opened.
\<close>

fun parsePerlFlags :: "string \<Rightarrow> bool \<Rightarrow> bool \<Rightarrow> (string \<times> bool) option" where
  "parsePerlFlags [] negated sawFlag = None"
| "parsePerlFlags (c # t) negated sawFlag =
     (if c \<in> set ''imsU'' then parsePerlFlags t negated True
      else if c = CHR ''-'' then (if negated then None else parsePerlFlags t True False)
      else if c = CHR '':'' \<or> c = CHR '')'' then
        (if negated \<and> \<not> sawFlag then None else Some (t, c = CHR '':''))
      else None)"

lemma parsePerlFlags_shorter:
  "parsePerlFlags t negated sawFlag = Some (rest, opens) \<Longrightarrow> length rest < length t"
  by (induction t negated sawFlag rule: parsePerlFlags.induct) (auto split: if_splits)

text \<open>
  One element of a bracket class: a Perl class, a character, or a range of two
  characters. The result is the rest of the pattern after it.
\<close>

datatype class_end = ClassEnd string | ClassError string | ClassNotModelled

definition classItem :: "string \<Rightarrow> class_end" where
  "classItem s =
     (case s of
        [] \<Rightarrow> ClassError ''missing closing ]''
      | c # t \<Rightarrow>
          if c = CHR ''['' \<and> take 1 t = '':'' then ClassNotModelled
          else if c = backslash then
            (if t = [] then ClassError ''trailing backslash at end of expression''
             else if hd t \<in> set ''dDsSwW'' then ClassEnd (tl t)
             else ClassNotModelled)
          else if 128 \<le> (of_char c :: nat) then ClassNotModelled
          else if 2 \<le> length t \<and> hd t = CHR ''-'' \<and> hd (tl t) \<noteq> CHR '']'' then
            (if hd (tl t) = backslash \<or> 128 \<le> (of_char (hd (tl t)) :: nat) then ClassNotModelled
             else if (of_char (hd (tl t)) :: nat) < of_char c then
               ClassError ''invalid character class range''
             else ClassEnd (drop 2 t))
          else ClassEnd t)"

lemma classItem_shorter: "classItem s = ClassEnd rest \<Longrightarrow> length rest < length s"
  by (cases s) (auto simp: classItem_def split: if_splits)

text \<open>
  \<open>parseClass\<close>, on the text after \<open>[\<close> and an optional \<open>^\<close>: elements up to the closing
  \<open>]\<close>, which is an ordinary character when it comes first.
\<close>

function parseClass :: "string \<Rightarrow> bool \<Rightarrow> class_end" where
  "parseClass s first =
     (if s \<noteq> [] \<and> hd s = CHR '']'' \<and> \<not> first then ClassEnd (tl s)
      else case classItem s of
             ClassEnd rest \<Rightarrow> parseClass rest False
           | ClassError e \<Rightarrow> ClassError e
           | ClassNotModelled \<Rightarrow> ClassNotModelled)"
  by pat_completeness auto
termination parseClass
  by (relation "measure (\<lambda>(s, first). length s)") (auto dest: classItem_shorter)

declare parseClass.simps [simp del]

lemma parseClass_shorter:
  "parseClass t first = ClassEnd rest \<Longrightarrow> length rest < length t"
proof (induction t first rule: parseClass.induct)
  case (1 s first)
  show ?case
  proof (cases "s \<noteq> [] \<and> hd s = CHR '']'' \<and> \<not> first")
    case True
    then have "parseClass s first = ClassEnd (tl s)"
      by (subst parseClass.simps) simp
    with "1.prems" have "rest = tl s" by simp
    with True show ?thesis by (cases s) simp_all
  next
    case False
    then have "parseClass s first =
        (case classItem s of ClassEnd rest \<Rightarrow> parseClass rest False
         | ClassError e \<Rightarrow> ClassError e | ClassNotModelled \<Rightarrow> ClassNotModelled)"
      by (subst parseClass.simps) auto
    with "1.prems" obtain mid where m: "classItem s = ClassEnd mid"
      and r: "parseClass mid False = ClassEnd rest"
      by (cases "classItem s") simp_all
    from "1.IH" [OF False m r] classItem_shorter [OF m] show ?thesis by simp
  qed
qed

text \<open>The main loop of the parser.\<close>

function parse :: "string \<Rightarrow> nat \<Rightarrow> bool \<Rightarrow> bool \<Rightarrow> parsed" where
  "parse [] depth operand lastRepeat =
     (if depth = 0 then Parsed else SyntaxError ''missing closing )'')"
| "parse (c # t) depth operand lastRepeat =
     (if c = CHR ''('' then
        (if take 1 t = ''?'' then
           (if take 2 (tl t) = ''P<'' \<or> take 1 (tl t) = ''<'' then NotModelled
            else case parsePerlFlags (tl t) False False of
                   None \<Rightarrow> SyntaxError ''invalid or unsupported Perl syntax''
                 | Some (rest, opens) \<Rightarrow>
                     if opens then parse rest (Suc depth) False False
                     else parse rest depth operand False)
         else parse t (Suc depth) False False)
      else if c = CHR ''|'' then parse t depth False False
      else if c = CHR '')'' then
        (if depth = 0 then SyntaxError ''unexpected )'' else parse t (depth - 1) True False)
      else if c \<in> set ''^$.'' then parse t depth True False
      else if c = CHR ''['' then
        (case parseClass (if take 1 t = ''^'' then tl t else t) True of
           ClassEnd rest \<Rightarrow> parse rest depth True False
         | ClassError e \<Rightarrow> SyntaxError e
         | ClassNotModelled \<Rightarrow> NotModelled)
      else if c \<in> set ''*+?'' then
        (if lastRepeat then SyntaxError ''invalid nested repetition operator''
         else if \<not> operand then SyntaxError ''missing argument to repetition operator''
         else parse (if take 1 t = ''?'' then tl t else t) depth True True)
      else if c = CHR ''{'' then NotModelled
      else if c = backslash then
        (case t of
           [] \<Rightarrow> SyntaxError ''trailing backslash at end of expression''
         | e # t' \<Rightarrow> if e \<in> set ''dDsSwW'' then parse t' depth True False else NotModelled)
      else if 128 \<le> (of_char c :: nat) then NotModelled
      else parse t depth True False)"
  by pat_completeness auto
termination parse
proof (relation "measure (\<lambda>(s, depth, operand, lastRepeat). length s)", goal_cases)
  case 1
  show ?case by simp
next
  case (2 c t depth operand lastRepeat x2 x y)
  from 2(4,5) have "parsePerlFlags (tl t) False False = Some (x, y)" by simp
  from parsePerlFlags_shorter [OF this] show ?case by simp
next
  case (3 c t depth operand lastRepeat x2 x y)
  from 3(4,5) have "parsePerlFlags (tl t) False False = Some (x, y)" by simp
  from parsePerlFlags_shorter [OF this] show ?case by simp
next
  case (8 c t depth operand lastRepeat x1)
  from parseClass_shorter [OF 8(6)] show ?case by (simp split: if_splits)
next
  case (9 c t depth operand lastRepeat)
  have "length (tl t) < Suc (length t)" by simp
  then show ?case by simp
next
  case (10 c t depth operand lastRepeat x21 x22)
  from 10(9) show ?case by simp
qed simp_all

text \<open>
  \<open>regexp.MustCompile\<close>: the compiled pattern, or a panic. Of Go's panic message
  the model keeps the parser's error, without the quoted pattern and fragment.
  \<open>None\<close> when the pattern is outside the modelled syntax.
\<close>

definition MustCompile :: "string \<Rightarrow> (error + string) option" where
  "MustCompile str =
     (if length str > 1000 then None
      else case parse str 0 False False of
             Parsed \<Rightarrow> Some (Inr str)
           | SyntaxError e \<Rightarrow>
               Some (Inl (Panic (''regexp: Compile: error parsing regexp: '' @ e)))
           | NotModelled \<Rightarrow> None)"

text \<open>
  The three patterns of the Go source (a doubled backslash in a Go string literal is
  one backslash), and the construction: the patterns are compiled in order, each paired
  with its message; the first panic ends the construction.
\<close>

definition role_name_charset :: string where
  "role_name_charset = ''['' @ [backslash] @ ''w'' @ [backslash] @ ''d-]+''"

definition role_name_atlasAdmin :: string where
  "role_name_atlasAdmin = ''^atlasAdmin$''"

definition role_name_xgen :: string where
  "role_name_xgen = ''^(?!xgen-).*''"

definition resourceMongoDBAtlasCustomDBRole :: "(error + (string \<times> string) list) option" where
  "resourceMongoDBAtlasCustomDBRole =
     (case MustCompile role_name_charset of
        None \<Rightarrow> None | Some (Inl e) \<Rightarrow> Some (Inl e) | Some (Inr r1) \<Rightarrow>
     (case MustCompile role_name_atlasAdmin of
        None \<Rightarrow> None | Some (Inl e) \<Rightarrow> Some (Inl e) | Some (Inr r2) \<Rightarrow>
     (case MustCompile role_name_xgen of
        None \<Rightarrow> None | Some (Inl e) \<Rightarrow> Some (Inl e) | Some (Inr r3) \<Rightarrow>
        Some (Inr
          [(r1, ''`role_name` can contain only letters, digits, underscores, and dashes''),
           (r2, ''`role_name` cannot be 'atlasAdmin'' @ [CHR 0x27]),
           (r3, ''`role_name` cannot start with 'xgen-'' @ [CHR 0x27])]))))"

section \<open>Concrete collaborators for the examples\<close>

text \<open>
  A client whose request construction and transport succeed: \<open>NewRequest\<close> keeps the
  method, path and body it is given, with an empty raw query.
\<close>

definition okClient :: "nat client" where
  "okClient =
     \<lparr>NewRequest = (\<lambda>m p b. Inr \<lparr>Method = m, URL = \<lparr>Path = p, RawQuery = []\<rparr>, Body = b\<rparr>),
      Do = (\<lambda>req. (Some 200, Inr \<lparr>GC_CustomZoneMapping = Map.empty, ManagedNamespaces = []\<rparr>)),
      Query = (\<lambda>u. [])\<rparr>"

text \<open>
  A handle kept in memory: the identifier, the attributes as they were last set, and
  the keys that changed. \<open>GetOk\<close> reports whether the value is set and not the zero
  value of its type. The remote service holds one role; the identifier codec joins the
  parts with a colon.
\<close>

record ResourceData =
  rd_id :: string
  rd_attrs :: "string \<rightharpoonup> gval"
  rd_changed :: "string list"

fun nonZero :: "gval \<Rightarrow> bool" where
  "nonZero GNil = False"
| "nonZero (GBool b) = b"
| "nonZero (GString s) = (s \<noteq> [])"
| "nonZero (GList xs) = (xs \<noteq> [])"
| "nonZero (GMaps ms) = (ms \<noteq> [])"
| "nonZero (GSet xs) = (xs \<noteq> [])"
| "nonZero (GMap m) = True"

definition memEnv :: "(ResourceData, CustomDBRole) env" where
  "memEnv =
     \<lparr>d_Get = (\<lambda>d key. index (rd_attrs d) key),
      d_GetOk = (\<lambda>d key. (index (rd_attrs d) key, nonZero (index (rd_attrs d) key))),
      d_HasChange = (\<lambda>d key. key \<in> set (rd_changed d)),
      d_Id = rd_id,
      d_SetId = (\<lambda>d v. d\<lparr>rd_id := v\<rparr>),
      d_Set = (\<lambda>d key v. (None, d\<lparr>rd_attrs := (rd_attrs d)(key \<mapsto> v)\<rparr>)),
      roles_Create = (\<lambda>projectID role r. (Inr role, role)),
      roles_Get = (\<lambda>projectID roleName r. (Inr r, r)),
      roles_Update = (\<lambda>projectID roleName role r. (Inr role, role)),
      roles_Delete = (\<lambda>projectID roleName r. (None, r)),
      encodeStateID = (\<lambda>ids. lookupStr ids ''project_id'' @ '':'' @ lookupStr ids ''role_name''),
      decodeStateID = (\<lambda>v. case cut '':'' v of None \<Rightarrow> Map.empty
                           | Some (p, n) \<Rightarrow> [''project_id'' \<mapsto> p, ''role_name'' \<mapsto> n])\<rparr>"

text \<open>The role the remote service holds in the examples.\<close>

definition readerRole :: CustomDBRole where
  "readerRole =
     \<lparr>Actions = [\<lparr>Action = ''FIND'',
                  Resources = [\<lparr>Collection = ''orders'', Db = ''sales'', Cluster = False\<rparr>]\<rparr>],
      InheritedRoles = [\<lparr>IR_Db = ''admin'', IR_Role = ''read''\<rparr>],
      RoleName = ''reader''\<rparr>"

text \<open>
  A role as the remote service may hold it with a resource that has neither shape: a
  database and no collection.
\<close>

definition invalidRole :: CustomDBRole where
  "invalidRole =
     \<lparr>Actions = [\<lparr>Action = ''FIND'',
                  Resources = [\<lparr>Collection = [], Db = ''sales'', Cluster = False\<rparr>]\<rparr>],
      InheritedRoles = [],
      RoleName = ''reader''\<rparr>"

text \<open>
  What the handle returns for \<open>actions\<close> when the configuration has one action on one
  collection. The schema declares \<open>actions\<close> as \<open>schema.TypeList\<close> and, inside an action,
  \<open>resources\<close> as \<open>schema.TypeSet\<close>: the actions are a \<open>[]interface{}\<close> of maps, and the
  resources of an action are a \<open>*schema.Set\<close>.
\<close>

definition configuredActions :: gval where
  "configuredActions =
     GList [GMap [''action'' \<mapsto> GString ''FIND'',
                  ''resources'' \<mapsto>
                    GSet [GMap [''collection_name'' \<mapsto> GString ''orders'',
                                ''database_name'' \<mapsto> GString ''sales'',
                                ''cluster'' \<mapsto> GBool False]]]]"

text \<open>The handle of that configuration, with the actions changed and with nothing changed.\<close>

definition changedHandle :: ResourceData where
  "changedHandle =
     \<lparr>rd_id = ''p1:reader'',
      rd_attrs = [''project_id'' \<mapsto> GString ''p1'', ''role_name'' \<mapsto> GString ''reader'',
                  ''actions'' \<mapsto> configuredActions],
      rd_changed = [''actions'']\<rparr>"

definition unchangedHandle :: ResourceData where
  "unchangedHandle =
     \<lparr>rd_id = ''p1:reader'',
      rd_attrs = [''project_id'' \<mapsto> GString ''p1'', ''role_name'' \<mapsto> GString ''reader'',
                  ''actions'' \<mapsto> configuredActions],
      rd_changed = []\<rparr>"

section \<open>Properties of the validation\<close>

lemma validateResources_None_iff:
  "validateResources rs = None \<longleftrightarrow>
     (\<forall>r \<in> set rs. (Cluster r \<and> Db r = [] \<and> Collection r = []) \<or>
                    (\<not> Cluster r \<and> Db r \<noteq> [] \<and> Collection r \<noteq> []))"
  by (induction rs) auto

lemma validateResources_Some:
  "validateResources rs = Some e \<Longrightarrow> e = Errorf exclusive_msg \<or> e = Errorf missing_msg"
  by (induction rs) (auto split: if_splits)

lemma validateActionList_None_iff:
  "validateActionList as = None \<longleftrightarrow>
     (\<forall>a \<in> set as. validateResources (Resources a) = None)"
  by (induction as) (auto split: option.splits)

lemma validateActionList_Some:
  "validateActionList as = Some e \<Longrightarrow> e = Errorf exclusive_msg \<or> e = Errorf missing_msg"
  by (induction as) (auto split: option.splits dest: validateResources_Some)

text \<open>
  Claim C1. \<open>validateActions\<close> accepts a role (returns no error) exactly when every
  resource of every action has one of the two shapes: cluster flag set with database
  and collection both empty, or cluster flag unset with database and collection both
  non-empty. Every other role is rejected with one of the two descriptive messages.
\<close>

theorem validateActions_accepts_iff:
  "(validateActions role = None \<longleftrightarrow>
      (\<forall>a \<in> set (Actions role). \<forall>r \<in> set (Resources a).
         (Cluster r \<and> Db r = [] \<and> Collection r = []) \<or>
         (\<not> Cluster r \<and> Db r \<noteq> [] \<and> Collection r \<noteq> []))) \<and>
   (validateActions role \<noteq> None \<longrightarrow>
      validateActions role = Some (Errorf exclusive_msg) \<or>
      validateActions role = Some (Errorf missing_msg))"
proof
  show "validateActions role = None \<longleftrightarrow>
      (\<forall>a \<in> set (Actions role). \<forall>r \<in> set (Resources a).
         (Cluster r \<and> Db r = [] \<and> Collection r = []) \<or>
         (\<not> Cluster r \<and> Db r \<noteq> [] \<and> Collection r \<noteq> []))"
    unfolding validateActions_def validateActionList_None_iff validateResources_None_iff ..
next
  show "validateActions role \<noteq> None \<longrightarrow>
      validateActions role = Some (Errorf exclusive_msg) \<or>
      validateActions role = Some (Errorf missing_msg)"
    unfolding validateActions_def using validateActionList_Some by blast
qed

theorem validateActions_accepts_iff_witness:
  "validateActions
     \<lparr>Actions = [\<lparr>Action = ''FIND'',
                  Resources = [\<lparr>Collection = ''orders'', Db = ''sales'', Cluster = False\<rparr>,
                               \<lparr>Collection = [], Db = [], Cluster = True\<rparr>]\<rparr>],
      InheritedRoles = [], RoleName = ''reader''\<rparr> = None \<and>
   validateActions
     \<lparr>Actions = [\<lparr>Action = ''FIND'',
                  Resources = [\<lparr>Collection = [], Db = ''sales'', Cluster = False\<rparr>]\<rparr>],
      InheritedRoles = [], RoleName = ''reader''\<rparr> = Some (Errorf missing_msg)"
proof
  show "validateActions
     \<lparr>Actions = [\<lparr>Action = ''FIND'',
                  Resources = [\<lparr>Collection = ''orders'', Db = ''sales'', Cluster = False\<rparr>,
                               \<lparr>Collection = [], Db = [], Cluster = True\<rparr>]\<rparr>],
      InheritedRoles = [], RoleName = ''reader''\<rparr> = None"
    using validateActions_accepts_iff
      [of "\<lparr>Actions = [\<lparr>Action = ''FIND'',
                  Resources = [\<lparr>Collection = ''orders'', Db = ''sales'', Cluster = False\<rparr>,
                               \<lparr>Collection = [], Db = [], Cluster = True\<rparr>]\<rparr>],
      InheritedRoles = [], RoleName = ''reader''\<rparr>"]
    by simp
next
  show "validateActions
     \<lparr>Actions = [\<lparr>Action = ''FIND'',
                  Resources = [\<lparr>Collection = [], Db = ''sales'', Cluster = False\<rparr>]\<rparr>],
      InheritedRoles = [], RoleName = ''reader''\<rparr> = Some (Errorf missing_msg)"
    by (simp add: validateActions_def)
qed

section \<open>Properties of the Global Clusters client\<close>

lemma Encode_collection_db:
  "Encode (Add (Add [] ''collection'' ''orders'') ''db'' ''sales'') = ''collection=orders&db=sales''"
  by (simp add: Encode_def shouldEscape_def)

text \<open>
  Claim C5. For a namespace with db \<open>sales\<close> and collection \<open>orders\<close> (any shard key),
  \<open>DeleteManagedNamespace\<close> asks the client for a DELETE request with no body and sends
  that request with the raw query \<open>collection=orders&db=sales\<close>: the two pairs, keys in
  sorted order, nothing else. The request the client builds is taken to carry no query
  parameters of its own.
\<close>

theorem DeleteManagedNamespace_query:
  assumes "MN_Db ns = ''sales''" and "MN_Collection ns = ''orders''"
    and "path = ''groups/'' @ groupID @ ''/clusters/'' @ clusterName @
                ''/globalWrites/managedNamespaces''"
    and "NewRequest c ''DELETE'' path NoBody = Inr req"
    and "Query c (URL req) = []"
  shows "DeleteManagedNamespace c groupID clusterName (Some ns) =
           (send c (req\<lparr>URL := (URL req)\<lparr>RawQuery := ''collection=orders&db=sales''\<rparr>\<rparr>),
            [NewRequestCall ''DELETE'' path NoBody,
             DoCall (req\<lparr>URL := (URL req)\<lparr>RawQuery := ''collection=orders&db=sales''\<rparr>\<rparr>)])"
proof -
  have p: "globalClustersBasePath groupID clusterName ''managedNamespaces'' = path"
    using assms(3) by (simp add: globalClustersBasePath_def)
  have e: "Encode (Add (Add (Query c (URL req)) ''collection'' (MN_Collection ns)) ''db'' (MN_Db ns))
             = ''collection=orders&db=sales''"
    using assms(1,2,5) Encode_collection_db by simp
  show ?thesis
    unfolding DeleteManagedNamespace_def p Let_def
    using assms(4) e by (simp add: MethodDelete_def)
qed

theorem DeleteManagedNamespace_query_witness:
  "DeleteManagedNamespace okClient ''g1'' ''c0''
       (Some \<lparr>MN_Db = ''sales'', MN_Collection = ''orders'', CustomShardKey = ''k''\<rparr>) =
     ((Some \<lparr>GC_CustomZoneMapping = Map.empty, ManagedNamespaces = []\<rparr>, Some 200, None),
      [NewRequestCall ''DELETE'' ''groups/g1/clusters/c0/globalWrites/managedNamespaces'' NoBody,
       DoCall \<lparr>Method = ''DELETE'',
               URL = \<lparr>Path = ''groups/g1/clusters/c0/globalWrites/managedNamespaces'',
                      RawQuery = ''collection=orders&db=sales''\<rparr>,
               Body = NoBody\<rparr>])"
  using DeleteManagedNamespace_query
    [of "\<lparr>MN_Db = ''sales'', MN_Collection = ''orders'', CustomShardKey = ''k''\<rparr>"
        "''groups/g1/clusters/c0/globalWrites/managedNamespaces''" "''g1''" "''c0''" okClient
        "\<lparr>Method = ''DELETE'',
               URL = \<lparr>Path = ''groups/g1/clusters/c0/globalWrites/managedNamespaces'',
                      RawQuery = []\<rparr>,
               Body = NoBody\<rparr>"]
  by (simp add: okClient_def send_def)

text \<open>
  Claim C6. \<open>Get\<close> with an empty cluster name returns an argument error at once, for
  every group identifier and every client, and asks nothing of the client.
\<close>

theorem Get_empty_clusterName:
  "Get c groupID [] = ((None, None, Some (ArgError ''username'' ''must be set'')), [])"
  by (simp add: Get_def)

text \<open>
  Claim C7. With a nil request argument, \<open>AddManagedNamespace\<close>,
  \<open>DeleteManagedNamespace\<close> and \<open>AddCustomZoneMappings\<close> return an argument error and
  ask nothing of the client. \<open>DeleteCustomZoneMappings\<close> checks no argument: whatever
  the group identifier and cluster name, it asks the client for the DELETE request,
  sends the request the client built, and returns an error only if the client did.
\<close>

theorem nil_request_argument_errors:
  "AddManagedNamespace c groupID clusterName None =
     ((None, None, Some (ArgError ''createRequest'' ''cannot be nil'')), []) \<and>
   DeleteManagedNamespace c groupID clusterName None =
     ((None, None, Some (ArgError ''createRequest'' ''cannot be nil'')), []) \<and>
   AddCustomZoneMappings c groupID clusterName None =
     ((None, None, Some (ArgError ''createRequest'' ''cannot be nil'')), []) \<and>
   snd (DeleteCustomZoneMappings c groupID clusterName) \<noteq> [] \<and>
   hd (snd (DeleteCustomZoneMappings c groupID clusterName)) =
     NewRequestCall ''DELETE''
       (''groups/'' @ groupID @ ''/clusters/'' @ clusterName @ ''/globalWrites/customZoneMapping'')
       NoBody \<and>
   (\<forall>req. NewRequest c ''DELETE''
            (''groups/'' @ groupID @ ''/clusters/'' @ clusterName @
             ''/globalWrites/customZoneMapping'')
            NoBody = Inr req \<longrightarrow>
      DeleteCustomZoneMappings c groupID clusterName =
        (send c req,
         [NewRequestCall ''DELETE''
            (''groups/'' @ groupID @ ''/clusters/'' @ clusterName @
             ''/globalWrites/customZoneMapping'')
            NoBody,
          DoCall req])) \<and>
   (\<forall>e. snd (snd (fst (DeleteCustomZoneMappings c groupID clusterName))) = Some e \<longrightarrow>
      NewRequest c ''DELETE''
         (''groups/'' @ groupID @ ''/clusters/'' @ clusterName @
          ''/globalWrites/customZoneMapping'')
         NoBody = Inl e \<or>
      (\<exists>req resp. NewRequest c ''DELETE''
         (''groups/'' @ groupID @ ''/clusters/'' @ clusterName @
          ''/globalWrites/customZoneMapping'')
         NoBody = Inr req \<and> Do c req = (resp, Inl e)))"
  by (auto simp: AddManagedNamespace_def DeleteManagedNamespace_def AddCustomZoneMappings_def
        DeleteCustomZoneMappings_def globalClustersBasePath_def MethodDelete_def send_def Let_def
        split: sum.splits prod.splits)

theorem nil_request_argument_errors_witness:
  "DeleteCustomZoneMappings okClient [] [] =
     ((Some \<lparr>GC_CustomZoneMapping = Map.empty, ManagedNamespaces = []\<rparr>, Some 200, None),
      [NewRequestCall ''DELETE'' ''groups//clusters//globalWrites/customZoneMapping'' NoBody,
       DoCall \<lparr>Method = ''DELETE'',
               URL = \<lparr>Path = ''groups//clusters//globalWrites/customZoneMapping'',
                      RawQuery = []\<rparr>,
               Body = NoBody\<rparr>])"
  using nil_request_argument_errors [of okClient "[]" "[]"]
  by (simp add: okClient_def send_def)

text \<open>
  Claim C10. \<open>Get\<close> checks the cluster name only. With a non-empty cluster name and
  any group identifier, the empty one included, it asks the client for a GET request
  on the path with the group identifier put in as it is, sends the request the client
  built, and returns an error only if the client did.
\<close>

theorem Get_validates_clusterName_only:
  assumes "clusterName \<noteq> []"
    and "path = ''groups/'' @ groupID @ ''/clusters/'' @ clusterName @ ''/globalWrites''"
  shows "snd (Get c groupID clusterName) \<noteq> [] \<and>
         hd (snd (Get c groupID clusterName)) = NewRequestCall ''GET'' path NoBody \<and>
         (\<forall>req. NewRequest c ''GET'' path NoBody = Inr req \<longrightarrow>
            Get c groupID clusterName =
              (send c req, [NewRequestCall ''GET'' path NoBody, DoCall req])) \<and>
         (\<forall>e. snd (snd (fst (Get c groupID clusterName))) = Some e \<longrightarrow>
            NewRequest c ''GET'' path NoBody = Inl e \<or>
            (\<exists>req resp. NewRequest c ''GET'' path NoBody = Inr req \<and> Do c req = (resp, Inl e)))"
  using assms
  by (auto simp: Get_def MethodGet_def send_def Let_def split: sum.splits prod.splits)

theorem Get_validates_clusterName_only_witness:
  "Get okClient [] ''c0'' =
     ((Some \<lparr>GC_CustomZoneMapping = Map.empty, ManagedNamespaces = []\<rparr>, Some 200, None),
      [NewRequestCall ''GET'' ''groups//clusters/c0/globalWrites'' NoBody,
       DoCall \<lparr>Method = ''GET'',
               URL = \<lparr>Path = ''groups//clusters/c0/globalWrites'', RawQuery = []\<rparr>,
               Body = NoBody\<rparr>])"
  using Get_validates_clusterName_only
    [of "''c0''" "''groups//clusters/c0/globalWrites''" "[]" okClient]
  by (simp add: okClient_def send_def)

section \<open>Properties of the lifecycle operations\<close>

lemma Read_calls:
  "calls (snd (resourceMongoDBAtlasCustomDBRoleRead env s)) =
     calls s @ [GetCall (lookupStr (decodeStateID env (d_Id env (handle s))) ''project_id'')
                        (lookupStr (decodeStateID env (d_Id env (handle s))) ''role_name'')]"
  by (simp add: resourceMongoDBAtlasCustomDBRoleRead_def Let_def
        split: prod.splits sum.splits option.splits)

lemma Create_panics:
  assumes "assertString (d_Get env (handle s) ''project_id'') = Inl e \<or>
           assertString (d_Get env (handle s) ''project_id'') = Inr projectID \<and>
           (assertString (d_Get env (handle s) ''role_name'') = Inl e \<or>
            assertString (d_Get env (handle s) ''role_name'') = Inr roleName \<and>
            (expandActions env (handle s) = Inl e \<or>
             expandActions env (handle s) = Inr actions \<and>
             expandInheritedRoles env (handle s) = Inl e))"
  shows "resourceMongoDBAtlasCustomDBRoleCreate env s = (Some e, s)"
  using assms by (auto simp add: resourceMongoDBAtlasCustomDBRoleCreate_def Let_def)

lemma Create_rejected:
  assumes "assertString (d_Get env (handle s) ''project_id'') = Inr projectID"
    and "assertString (d_Get env (handle s) ''role_name'') = Inr roleName"
    and "expandActions env (handle s) = Inr actions"
    and "expandInheritedRoles env (handle s) = Inr inherited"
    and "validateActions \<lparr>Actions = actions, InheritedRoles = inherited, RoleName = roleName\<rparr>
           = Some err"
  shows "resourceMongoDBAtlasCustomDBRoleCreate env s = (Some err, s)"
  using assms by (simp add: resourceMongoDBAtlasCustomDBRoleCreate_def Let_def)

lemma Create_calls:
  assumes "assertString (d_Get env (handle s) ''project_id'') = Inr projectID"
    and "assertString (d_Get env (handle s) ''role_name'') = Inr roleName"
    and "expandActions env (handle s) = Inr actions"
    and "expandInheritedRoles env (handle s) = Inr inherited"
    and "validateActions \<lparr>Actions = actions, InheritedRoles = inherited, RoleName = roleName\<rparr>
           = None"
  shows "\<exists>rest. calls (snd (resourceMongoDBAtlasCustomDBRoleCreate env s)) =
           calls s @ CreateCall projectID
             \<lparr>Actions = actions, InheritedRoles = inherited, RoleName = roleName\<rparr> # rest"
  using assms
  by (auto simp add: resourceMongoDBAtlasCustomDBRoleCreate_def Let_def Read_calls
        split: prod.splits sum.splits)

lemma Create_outcomes:
  "(\<exists>e. resourceMongoDBAtlasCustomDBRoleCreate env s = (Some e, s) \<and>
        (assertString (d_Get env (handle s) ''project_id'') = Inl e \<or>
         assertString (d_Get env (handle s) ''role_name'') = Inl e \<or>
         expandActions env (handle s) = Inl e \<or>
         expandInheritedRoles env (handle s) = Inl e)) \<or>
   (\<exists>projectID roleName actions inherited err.
        assertString (d_Get env (handle s) ''project_id'') = Inr projectID \<and>
        assertString (d_Get env (handle s) ''role_name'') = Inr roleName \<and>
        expandActions env (handle s) = Inr actions \<and>
        expandInheritedRoles env (handle s) = Inr inherited \<and>
        validateActions \<lparr>Actions = actions, InheritedRoles = inherited, RoleName = roleName\<rparr>
          = Some err \<and>
        resourceMongoDBAtlasCustomDBRoleCreate env s = (Some err, s)) \<or>
   (\<exists>projectID roleName actions inherited rest.
        assertString (d_Get env (handle s) ''project_id'') = Inr projectID \<and>
        assertString (d_Get env (handle s) ''role_name'') = Inr roleName \<and>
        expandActions env (handle s) = Inr actions \<and>
        expandInheritedRoles env (handle s) = Inr inherited \<and>
        validateActions \<lparr>Actions = actions, InheritedRoles = inherited, RoleName = roleName\<rparr>
          = None \<and>
        calls (snd (resourceMongoDBAtlasCustomDBRoleCreate env s)) =
          calls s @ CreateCall projectID
            \<lparr>Actions = actions, InheritedRoles = inherited, RoleName = roleName\<rparr> # rest)"
proof (cases "assertString (d_Get env (handle s) ''project_id'')")
  case (Inl e)
  then show ?thesis using Create_panics [of env s e] by blast
next
  case p: (Inr projectID)
  show ?thesis
  proof (cases "assertString (d_Get env (handle s) ''role_name'')")
    case (Inl e)
    with p show ?thesis using Create_panics [of env s e projectID] by blast
  next
    case n: (Inr roleName)
    show ?thesis
    proof (cases "expandActions env (handle s)")
      case (Inl e)
      with p n show ?thesis using Create_panics [of env s e projectID roleName] by blast
    next
      case a: (Inr actions)
      show ?thesis
      proof (cases "expandInheritedRoles env (handle s)")
        case (Inl e)
        with p n a show ?thesis
          using Create_panics [of env s e projectID roleName actions] by blast
      next
        case i: (Inr inherited)
        show ?thesis
        proof (cases "validateActions
            \<lparr>Actions = actions, InheritedRoles = inherited, RoleName = roleName\<rparr>")
          case None
          from Create_calls [OF p n a i None] p n a i None show ?thesis by blast
        next
          case (Some err)
          from Create_rejected [OF p n a i Some] p n a i Some show ?thesis by blast
        qed
      qed
    qed
  qed
qed

lemma Update_rejected:
  assumes g: "roles_Get env (lookupStr (decodeStateID env (d_Id env (handle s))) ''project_id'')
                (lookupStr (decodeStateID env (d_Id env (handle s))) ''role_name'') (remote s)
              = (Inr role, remote')"
    and e: "(if d_HasChange env (handle s) ''actions'' then expandActions env (handle s)
          else Inr (Actions role)) = Inr actions"
    and v: "validateActions (role\<lparr>Actions := actions\<rparr>) = Some err"
  shows "resourceMongoDBAtlasCustomDBRoleUpdate env s =
      (Some err, s\<lparr>remote := remote',
                    calls := calls s @
                      [GetCall (lookupStr (decodeStateID env (d_Id env (handle s))) ''project_id'')
                (lookupStr (decodeStateID env (d_Id env (handle s))) ''role_name'')]\<rparr>)"
proof (cases "d_HasChange env (handle s) ''actions''")
  case True
  with e have "expandActions env (handle s) = Inr actions" by simp
  with True g v show ?thesis
    by (simp add: resourceMongoDBAtlasCustomDBRoleUpdate_def Let_def)
next
  case False
  with e have "role\<lparr>Actions := actions\<rparr> = role" by simp
  with False g v show ?thesis
    by (simp add: resourceMongoDBAtlasCustomDBRoleUpdate_def Let_def)
qed

text \<open>
  Claim C3. Create ends in one of three ways: with the panic of a failed type
  assertion, nothing done; with the error of \<open>validateActions\<close> on the role it built
  from the handle, nothing done; or with the role-creation call, made on a role that
  \<open>validateActions\<close> accepted. Nothing done means the state is as it was: no call to the
  role service, the handle and so the identifier untouched. When \<open>validateActions\<close>
  rejects the role that Update fetched and, if the actions changed, gave the expanded
  actions, Update returns that error and the only call made is the fetch: no update
  call.
\<close>

theorem validation_error_before_mutation:
  assumes "pid = lookupStr (decodeStateID env (d_Id env (handle s))) ''project_id''"
    and "name = lookupStr (decodeStateID env (d_Id env (handle s))) ''role_name''"
  shows
  "((\<exists>e. resourceMongoDBAtlasCustomDBRoleCreate env s = (Some e, s) \<and>
        (assertString (d_Get env (handle s) ''project_id'') = Inl e \<or>
         assertString (d_Get env (handle s) ''role_name'') = Inl e \<or>
         expandActions env (handle s) = Inl e \<or>
         expandInheritedRoles env (handle s) = Inl e)) \<or>
    (\<exists>projectID roleName actions inherited err.
        assertString (d_Get env (handle s) ''project_id'') = Inr projectID \<and>
        assertString (d_Get env (handle s) ''role_name'') = Inr roleName \<and>
        expandActions env (handle s) = Inr actions \<and>
        expandInheritedRoles env (handle s) = Inr inherited \<and>
        validateActions \<lparr>Actions = actions, InheritedRoles = inherited, RoleName = roleName\<rparr>
          = Some err \<and>
        resourceMongoDBAtlasCustomDBRoleCreate env s = (Some err, s)) \<or>
    (\<exists>projectID roleName actions inherited rest.
        assertString (d_Get env (handle s) ''project_id'') = Inr projectID \<and>
        assertString (d_Get env (handle s) ''role_name'') = Inr roleName \<and>
        expandActions env (handle s) = Inr actions \<and>
        expandInheritedRoles env (handle s) = Inr inherited \<and>
        validateActions \<lparr>Actions = actions, InheritedRoles = inherited, RoleName = roleName\<rparr>
          = None \<and>
        calls (snd (resourceMongoDBAtlasCustomDBRoleCreate env s)) =
          calls s @ CreateCall projectID
            \<lparr>Actions = actions, InheritedRoles = inherited, RoleName = roleName\<rparr> # rest)) \<and>
   (roles_Get env pid name (remote s) = (Inr role, remote') \<and>
    (if d_HasChange env (handle s) ''actions'' then expandActions env (handle s)
     else Inr (Actions role)) = Inr actions' \<and>
    validateActions (role\<lparr>Actions := actions'\<rparr>) = Some err' \<longrightarrow>
    resourceMongoDBAtlasCustomDBRoleUpdate env s =
      (Some err', s\<lparr>remote := remote', calls := calls s @ [GetCall pid name]\<rparr>))"
  unfolding assms
proof (intro conjI impI)
  show "(\<exists>e. resourceMongoDBAtlasCustomDBRoleCreate env s = (Some e, s) \<and>
        (assertString (d_Get env (handle s) ''project_id'') = Inl e \<or>
         assertString (d_Get env (handle s) ''role_name'') = Inl e \<or>
         expandActions env (handle s) = Inl e \<or>
         expandInheritedRoles env (handle s) = Inl e)) \<or>
    (\<exists>projectID roleName actions inherited err.
        assertString (d_Get env (handle s) ''project_id'') = Inr projectID \<and>
        assertString (d_Get env (handle s) ''role_name'') = Inr roleName \<and>
        expandActions env (handle s) = Inr actions \<and>
        expandInheritedRoles env (handle s) = Inr inherited \<and>
        validateActions \<lparr>Actions = actions, InheritedRoles = inherited, RoleName = roleName\<rparr>
          = Some err \<and>
        resourceMongoDBAtlasCustomDBRoleCreate env s = (Some err, s)) \<or>
    (\<exists>projectID roleName actions inherited rest.
        assertString (d_Get env (handle s) ''project_id'') = Inr projectID \<and>
        assertString (d_Get env (handle s) ''role_name'') = Inr roleName \<and>
        expandActions env (handle s) = Inr actions \<and>
        expandInheritedRoles env (handle s) = Inr inherited \<and>
        validateActions \<lparr>Actions = actions, InheritedRoles = inherited, RoleName = roleName\<rparr>
          = None \<and>
        calls (snd (resourceMongoDBAtlasCustomDBRoleCreate env s)) =
          calls s @ CreateCall projectID
            \<lparr>Actions = actions, InheritedRoles = inherited, RoleName = roleName\<rparr> # rest)"
    by (rule Create_outcomes)
next
  assume "roles_Get env (lookupStr (decodeStateID env (d_Id env (handle s))) ''project_id'')
      (lookupStr (decodeStateID env (d_Id env (handle s))) ''role_name'') (remote s)
        = (Inr role, remote') \<and>
    (if d_HasChange env (handle s) ''actions'' then expandActions env (handle s)
     else Inr (Actions role)) = Inr actions' \<and>
    validateActions (role\<lparr>Actions := actions'\<rparr>) = Some err'"
  then show "resourceMongoDBAtlasCustomDBRoleUpdate env s =
      (Some err', s\<lparr>remote := remote', calls := calls s @
         [GetCall (lookupStr (decodeStateID env (d_Id env (handle s))) ''project_id'')
      (lookupStr (decodeStateID env (d_Id env (handle s))) ''role_name'')]\<rparr>)"
    by (elim conjE) (rule Update_rejected)
qed

lemma memEnv_sel:
  "d_Get memEnv = (\<lambda>d key. index (rd_attrs d) key)"
  "d_GetOk memEnv = (\<lambda>d key. (index (rd_attrs d) key, nonZero (index (rd_attrs d) key)))"
  "d_HasChange memEnv = (\<lambda>d key. key \<in> set (rd_changed d))"
  "d_Id memEnv = rd_id"
  "d_SetId memEnv = (\<lambda>d v. d\<lparr>rd_id := v\<rparr>)"
  "d_Set memEnv = (\<lambda>d key v. (None, d\<lparr>rd_attrs := (rd_attrs d)(key \<mapsto> v)\<rparr>))"
  "roles_Create memEnv = (\<lambda>projectID role r. (Inr role, role))"
  "roles_Get memEnv = (\<lambda>projectID roleName r. (Inr r, r))"
  "roles_Update memEnv = (\<lambda>projectID roleName role r. (Inr role, role))"
  "roles_Delete memEnv = (\<lambda>projectID roleName r. (None, r))"
  "encodeStateID memEnv = (\<lambda>ids. lookupStr ids ''project_id'' @ '':'' @ lookupStr ids ''role_name'')"
  "decodeStateID memEnv = (\<lambda>v. case cut '':'' v of None \<Rightarrow> Map.empty
                           | Some (p, n) \<Rightarrow> [''project_id'' \<mapsto> p, ''role_name'' \<mapsto> n])"
  by (simp_all add: memEnv_def)

lemma configured_ids:
  "lookupStr (decodeStateID memEnv (d_Id memEnv changedHandle)) ''project_id'' = ''p1''"
  "lookupStr (decodeStateID memEnv (d_Id memEnv changedHandle)) ''role_name'' = ''reader''"
  "lookupStr (decodeStateID memEnv (d_Id memEnv unchangedHandle)) ''project_id'' = ''p1''"
  "lookupStr (decodeStateID memEnv (d_Id memEnv unchangedHandle)) ''role_name'' = ''reader''"
  by (simp_all add: memEnv_sel changedHandle_def unchangedHandle_def lookupStr_def)

lemma configured_names:
  "assertString (d_Get memEnv changedHandle ''project_id'') = Inr ''p1''"
  "assertString (d_Get memEnv changedHandle ''role_name'') = Inr ''reader''"
  by (simp_all add: memEnv_sel changedHandle_def index_def)

lemma configured_changed:
  "d_HasChange memEnv changedHandle ''actions''"
  "\<not> d_HasChange memEnv unchangedHandle ''actions''"
  "\<not> d_HasChange memEnv unchangedHandle ''inherited_roles''"
  by (simp_all add: memEnv_sel changedHandle_def unchangedHandle_def)

lemma configured_expand:
  "expandActions memEnv changedHandle = Inl conversion_panic"
  by (simp add: expandActions_def memEnv_sel changedHandle_def configuredActions_def index_def)

lemma configured_inherited: "expandInheritedRoles memEnv changedHandle = Inr []"
  by (simp add: expandInheritedRoles_def memEnv_sel changedHandle_def index_def)

lemma invalidRole_rejected: "validateActions invalidRole = Some (Errorf missing_msg)"
  by (simp add: validateActions_def invalidRole_def)

theorem validation_error_before_mutation_witness:
  "resourceMongoDBAtlasCustomDBRoleUpdate memEnv
      \<lparr>handle = unchangedHandle, remote = invalidRole, calls = []\<rparr> =
     (Some (Errorf missing_msg),
      \<lparr>handle = unchangedHandle, remote = invalidRole, calls = [GetCall ''p1'' ''reader'']\<rparr>) \<and>
   resourceMongoDBAtlasCustomDBRoleCreate memEnv
      \<lparr>handle = changedHandle, remote = readerRole, calls = []\<rparr> =
     (Some conversion_panic, \<lparr>handle = changedHandle, remote = readerRole, calls = []\<rparr>)"
proof -
  have u: "resourceMongoDBAtlasCustomDBRoleUpdate memEnv
      \<lparr>handle = unchangedHandle, remote = invalidRole, calls = []\<rparr> =
     (Some (Errorf missing_msg),
      \<lparr>handle = unchangedHandle, remote = invalidRole, calls = [GetCall ''p1'' ''reader'']\<rparr>)"
    using validation_error_before_mutation
      [where env = memEnv
         and s = "\<lparr>handle = unchangedHandle, remote = invalidRole, calls = []\<rparr>"
         and pid = "''p1''" and name = "''reader''" and role = invalidRole
         and remote' = invalidRole and actions' = "Actions invalidRole"
         and err' = "Errorf missing_msg", THEN conjunct2]
    by (simp add: configured_ids configured_changed invalidRole_rejected memEnv_sel(8))
  have c: "resourceMongoDBAtlasCustomDBRoleCreate memEnv
      \<lparr>handle = changedHandle, remote = readerRole, calls = []\<rparr> =
     (Some conversion_panic, \<lparr>handle = changedHandle, remote = readerRole, calls = []\<rparr>)"
    using validation_error_before_mutation
      [where env = memEnv
         and s = "\<lparr>handle = changedHandle, remote = readerRole, calls = []\<rparr>"
         and pid = "''p1''" and name = "''reader''", THEN conjunct1]
    by (simp add: configured_ids configured_names configured_expand configured_inherited)
  from u c show ?thesis by simp
qed

lemma Update_fetch_fails:
  assumes "roles_Get env (lookupStr (decodeStateID env (d_Id env (handle s))) ''project_id'')
                (lookupStr (decodeStateID env (d_Id env (handle s))) ''role_name'') (remote s)
              = (Inl msg, remote')"
  shows "resourceMongoDBAtlasCustomDBRoleUpdate env s =
      (Some (Errorf (''error getting custom db role information: '' @ msg)),
       s\<lparr>remote := remote',
         calls := calls s @
           [GetCall (lookupStr (decodeStateID env (d_Id env (handle s))) ''project_id'')
                    (lookupStr (decodeStateID env (d_Id env (handle s))) ''role_name'')]\<rparr>)"
  using assms by (simp add: resourceMongoDBAtlasCustomDBRoleUpdate_def Let_def)

lemma Update_first_call:
  "\<exists>rest. calls (snd (resourceMongoDBAtlasCustomDBRoleUpdate env s)) =
     calls s @ GetCall (lookupStr (decodeStateID env (d_Id env (handle s))) ''project_id'')
                       (lookupStr (decodeStateID env (d_Id env (handle s))) ''role_name'') # rest"
  by (auto simp add: resourceMongoDBAtlasCustomDBRoleUpdate_def Let_def Read_calls
        split: prod.splits sum.splits option.splits)

lemma Update_validated:
  assumes g: "roles_Get env (lookupStr (decodeStateID env (d_Id env (handle s))) ''project_id'')
                (lookupStr (decodeStateID env (d_Id env (handle s))) ''role_name'') (remote s)
              = (Inr role, remote')"
    and e: "(if d_HasChange env (handle s) ''actions'' then expandActions env (handle s)
          else Inr (Actions role)) = Inr actions"
    and v: "validateActions (role\<lparr>Actions := actions\<rparr>) = None"
    and i: "(if d_HasChange env (handle s) ''inherited_roles''
             then expandInheritedRoles env (handle s)
             else Inr (InheritedRoles role)) = Inr inherited"
    and u: "roles_Update env (lookupStr (decodeStateID env (d_Id env (handle s))) ''project_id'')
                (lookupStr (decodeStateID env (d_Id env (handle s))) ''role_name'')
                (role\<lparr>Actions := actions, InheritedRoles := inherited\<rparr>) remote'
              = (res, remote'')"
    and s2: "s2 = s\<lparr>remote := remote'',
         calls := calls s @
           [GetCall (lookupStr (decodeStateID env (d_Id env (handle s))) ''project_id'')
                    (lookupStr (decodeStateID env (d_Id env (handle s))) ''role_name''),
            UpdateCall (lookupStr (decodeStateID env (d_Id env (handle s))) ''project_id'')
                    (lookupStr (decodeStateID env (d_Id env (handle s))) ''role_name'')
                    (role\<lparr>Actions := actions, InheritedRoles := inherited\<rparr>)]\<rparr>"
  shows "resourceMongoDBAtlasCustomDBRoleUpdate env s =
      (case res of
         Inl msg \<Rightarrow>
           (Some (Errorf (''error updating custom db role ('' @
              lookupStr (decodeStateID env (d_Id env (handle s))) ''role_name'' @ ''): '' @ msg)), s2)
       | Inr updated \<Rightarrow> resourceMongoDBAtlasCustomDBRoleRead env s2)"
proof -
  have a: "(if d_HasChange env (handle s) ''actions''
            then (case expandActions env (handle s) of Inl e \<Rightarrow> Inl e
                  | Inr actions \<Rightarrow> Inr (role\<lparr>Actions := actions\<rparr>))
            else Inr role) = Inr (role\<lparr>Actions := actions\<rparr>)"
    using e by (auto split: if_splits)
  have b: "(if d_HasChange env (handle s) ''inherited_roles''
            then (case expandInheritedRoles env (handle s) of Inl e \<Rightarrow> Inl e
                  | Inr roles \<Rightarrow> Inr (role\<lparr>Actions := actions, InheritedRoles := roles\<rparr>))
            else Inr (role\<lparr>Actions := actions\<rparr>))
           = Inr (role\<lparr>Actions := actions, InheritedRoles := inherited\<rparr>)"
    using i by (auto split: if_splits)
  show ?thesis
    unfolding resourceMongoDBAtlasCustomDBRoleUpdate_def Let_def
    using g a v b u s2 by (simp split: sum.splits)
qed

lemma expandActions_set_panics:
  assumes "d_GetOk env d ''actions'' = (GList (GMap m # rest), True)"
    and "m ''action'' = Some (GString action)"
    and "m ''resources'' = Some (GSet items)"
  shows "expandActions env d = Inl conversion_panic"
  using assms by (simp add: expandActions_def index_def)

text \<open>
  Claim C8 says that Update replaces the actions when they changed, validates, makes
  the update call and reads the role again. The code does not get there: the handle
  returns the resources of an action as a set, the type assertion on them in
  \<open>expandActions\<close> fails, and Update ends in that panic right after the fetch, with no
  validation, no update call and no second read.
\<close>

theorem Update_changed_actions_panics:
  assumes "pid = lookupStr (decodeStateID env (d_Id env (handle s))) ''project_id''"
    and "name = lookupStr (decodeStateID env (d_Id env (handle s))) ''role_name''"
    and "roles_Get env pid name (remote s) = (Inr role, remote')"
    and "d_HasChange env (handle s) ''actions''"
    and "d_GetOk env (handle s) ''actions'' = (GList (GMap m # rest), True)"
    and "m ''action'' = Some (GString action)"
    and "m ''resources'' = Some (GSet items)"
  shows "resourceMongoDBAtlasCustomDBRoleUpdate env s =
           (Some conversion_panic,
            s\<lparr>remote := remote', calls := calls s @ [GetCall pid name]\<rparr>)"
proof -
  have "expandActions env (handle s) = Inl conversion_panic"
    using assms(5-7) by (rule expandActions_set_panics)
  with assms(1-4) show ?thesis
    by (simp add: resourceMongoDBAtlasCustomDBRoleUpdate_def Let_def)
qed

lemma configured_GetOk:
  "d_GetOk memEnv changedHandle ''actions'' =
     (GList (GMap [''action'' \<mapsto> GString ''FIND'',
                   ''resources'' \<mapsto>
                     GSet [GMap [''collection_name'' \<mapsto> GString ''orders'',
                                 ''database_name'' \<mapsto> GString ''sales'',
                                 ''cluster'' \<mapsto> GBool False]]] # []), True)"
  by (simp add: memEnv_sel changedHandle_def configuredActions_def index_def)

theorem Update_changed_actions_panics_witness:
  "resourceMongoDBAtlasCustomDBRoleUpdate memEnv
      \<lparr>handle = changedHandle, remote = readerRole, calls = []\<rparr> =
     (Some conversion_panic,
      \<lparr>handle = changedHandle, remote = readerRole, calls = [GetCall ''p1'' ''reader'']\<rparr>)"
  using Update_changed_actions_panics
    [where env = memEnv and s = "\<lparr>handle = changedHandle, remote = readerRole, calls = []\<rparr>"
       and pid = "''p1''" and name = "''reader''" and role = readerRole
       and remote' = readerRole
       and m = "[''action'' \<mapsto> GString ''FIND'',
                 ''resources'' \<mapsto>
                   GSet [GMap [''collection_name'' \<mapsto> GString ''orders'',
                               ''database_name'' \<mapsto> GString ''sales'',
                               ''cluster'' \<mapsto> GBool False]]]"
       and rest = "[]" and action = "''FIND''"
       and items = "[GMap [''collection_name'' \<mapsto> GString ''orders'',
                           ''database_name'' \<mapsto> GString ''sales'',
                           ''cluster'' \<mapsto> GBool False]]"]
  by (simp add: configured_ids configured_changed configured_GetOk memEnv_sel(8))

section \<open>Properties of the import\<close>

lemma cut_dash:
  "cut ''-'' s =
     (if CHR ''-'' \<in> set s
      then Some (takeWhile (\<lambda>c. c \<noteq> CHR ''-'') s, tl (dropWhile (\<lambda>c. c \<noteq> CHR ''-'') s))
      else None)"
  by (induction s) auto

lemma SplitN_dash_2:
  "SplitN s ''-'' 2 =
     (if CHR ''-'' \<in> set s
      then [takeWhile (\<lambda>c. c \<noteq> CHR ''-'') s, tl (dropWhile (\<lambda>c. c \<noteq> CHR ''-'') s)]
      else [s])"
  by (simp add: numeral_2_eq_2 cut_dash)

lemma Import_no_separator:
  assumes "CHR ''-'' \<notin> set (d_Id env (handle s))"
  shows "resourceMongoDBAtlasCustomDBRoleImportState env s = (Inl (Errorf import_format_msg), s)"
  using assms by (simp add: resourceMongoDBAtlasCustomDBRoleImportState_def SplitN_dash_2 Let_def)

lemma Import_separator:
  assumes "CHR ''-'' \<in> set (d_Id env (handle s))"
    and "projectID = takeWhile (\<lambda>c. c \<noteq> CHR ''-'') (d_Id env (handle s))"
    and "roleName = tl (dropWhile (\<lambda>c. c \<noteq> CHR ''-'') (d_Id env (handle s)))"
  shows "calls (snd (resourceMongoDBAtlasCustomDBRoleImportState env s)) =
           calls s @ [GetCall projectID roleName]"
    and "roles_Get env projectID roleName (remote s) = (Inr r, remote') \<Longrightarrow>
         fst (resourceMongoDBAtlasCustomDBRoleImportState env s) =
           Inr [snd (d_Set env
                  (d_SetId env (handle s)
                     (encodeStateID env [''project_id'' \<mapsto> projectID,
                                         ''role_name'' \<mapsto> RoleName r]))
                  ''project_id'' (GString projectID))]"
    and "roles_Get env projectID roleName (remote s) = (Inl msg, remote') \<Longrightarrow>
         fst (resourceMongoDBAtlasCustomDBRoleImportState env s) =
           Inl (Errorf (''couldn't import custom db role '' @ roleName @
                                '' in project '' @ projectID @ '', error: '' @ msg))"
  using assms
  by (simp_all add: resourceMongoDBAtlasCustomDBRoleImportState_def SplitN_dash_2 Let_def
       split: prod.splits sum.splits)

lemma split_first_dash:
  assumes "CHR ''-'' \<in> set ident"
  shows "ident = takeWhile (\<lambda>c. c \<noteq> CHR ''-'') ident @ ''-'' @
                 tl (dropWhile (\<lambda>c. c \<noteq> CHR ''-'') ident)"
    and "CHR ''-'' \<notin> set (takeWhile (\<lambda>c. c \<noteq> CHR ''-'') ident)"
proof -
  from assms have "dropWhile (\<lambda>c. c \<noteq> CHR ''-'') ident \<noteq> []" by simp
  moreover have "hd (dropWhile (\<lambda>c. c \<noteq> CHR ''-'') ident) = CHR ''-''"
    using hd_dropWhile [OF calculation] by simp
  ultimately have "dropWhile (\<lambda>c. c \<noteq> CHR ''-'') ident =
      CHR ''-'' # tl (dropWhile (\<lambda>c. c \<noteq> CHR ''-'') ident)"
    by (metis list.collapse)
  then show "ident = takeWhile (\<lambda>c. c \<noteq> CHR ''-'') ident @ ''-'' @
                 tl (dropWhile (\<lambda>c. c \<noteq> CHR ''-'') ident)"
    by (metis append_Cons append_Nil takeWhile_dropWhile_id)
  show "CHR ''-'' \<notin> set (takeWhile (\<lambda>c. c \<noteq> CHR ''-'') ident)"
    by (auto dest: set_takeWhileD)
qed

text \<open>
  Claim C4. Import splits the identifier at the first \<open>-\<close> only. An identifier without
  a \<open>-\<close> fails with the format error, the state untouched. Otherwise the text before
  the first \<open>-\<close> is the project and the rest the role name: the role is fetched under
  these two, and on success the handle gets the identifier encoded from the project and
  the fetched role's name, and \<open>project_id\<close> set to the project. So \<open>abc-def\<close> gives
  \<open>abc\<close> and \<open>def\<close>, \<open>abcdef\<close> fails, and \<open>a-b-c\<close> gives \<open>a\<close> and \<open>b-c\<close>.
\<close>

theorem Import_splits_on_first_dash:
  assumes ident: "d_Id env (handle s) = ident"
  shows
  "(CHR ''-'' \<notin> set ident \<longrightarrow>
      resourceMongoDBAtlasCustomDBRoleImportState env s = (Inl (Errorf import_format_msg), s)) \<and>
   (CHR ''-'' \<in> set ident \<longrightarrow>
      (\<exists>projectID roleName.
         ident = projectID @ ''-'' @ roleName \<and> CHR ''-'' \<notin> set projectID \<and>
         calls (snd (resourceMongoDBAtlasCustomDBRoleImportState env s)) =
           calls s @ [GetCall projectID roleName] \<and>
         (\<forall>r remote'. roles_Get env projectID roleName (remote s) = (Inr r, remote') \<longrightarrow>
            fst (resourceMongoDBAtlasCustomDBRoleImportState env s) =
              Inr [snd (d_Set env
                     (d_SetId env (handle s)
                        (encodeStateID env [''project_id'' \<mapsto> projectID,
                                            ''role_name'' \<mapsto> RoleName r]))
                     ''project_id'' (GString projectID))]))) \<and>
   (ident = ''abc-def'' \<longrightarrow>
      calls (snd (resourceMongoDBAtlasCustomDBRoleImportState env s)) =
        calls s @ [GetCall ''abc'' ''def''] \<and>
      (\<forall>r remote'. roles_Get env ''abc'' ''def'' (remote s) = (Inr r, remote') \<longrightarrow>
         fst (resourceMongoDBAtlasCustomDBRoleImportState env s) =
           Inr [snd (d_Set env
                  (d_SetId env (handle s)
                     (encodeStateID env [''project_id'' \<mapsto> ''abc'',
                                         ''role_name'' \<mapsto> RoleName r]))
                  ''project_id'' (GString ''abc''))])) \<and>
   (ident = ''abcdef'' \<longrightarrow>
      resourceMongoDBAtlasCustomDBRoleImportState env s = (Inl (Errorf import_format_msg), s)) \<and>
   (ident = ''a-b-c'' \<longrightarrow>
      calls (snd (resourceMongoDBAtlasCustomDBRoleImportState env s)) =
        calls s @ [GetCall ''a'' ''b-c''] \<and>
      (\<forall>r remote'. roles_Get env ''a'' ''b-c'' (remote s) = (Inr r, remote') \<longrightarrow>
         fst (resourceMongoDBAtlasCustomDBRoleImportState env s) =
           Inr [snd (d_Set env
                  (d_SetId env (handle s)
                     (encodeStateID env [''project_id'' \<mapsto> ''a'',
                                         ''role_name'' \<mapsto> RoleName r]))
                  ''project_id'' (GString ''a''))]))"
proof (intro conjI impI allI)
  assume "CHR ''-'' \<notin> set ident"
  then show "resourceMongoDBAtlasCustomDBRoleImportState env s =
      (Inl (Errorf import_format_msg), s)"
    using Import_no_separator [of env s] ident by simp
next
  assume d: "CHR ''-'' \<in> set ident"
  let ?p = "takeWhile (\<lambda>c. c \<noteq> CHR ''-'') ident"
  let ?n = "tl (dropWhile (\<lambda>c. c \<noteq> CHR ''-'') ident)"
  from d ident have d': "CHR ''-'' \<in> set (d_Id env (handle s))" by simp
  have c: "calls (snd (resourceMongoDBAtlasCustomDBRoleImportState env s)) =
           calls s @ [GetCall ?p ?n]"
    using Import_separator(1) [OF d' refl refl] ident by simp
  have r: "\<forall>r remote'. roles_Get env ?p ?n (remote s) = (Inr r, remote') \<longrightarrow>
            fst (resourceMongoDBAtlasCustomDBRoleImportState env s) =
              Inr [snd (d_Set env
                     (d_SetId env (handle s)
                        (encodeStateID env [''project_id'' \<mapsto> ?p,
                                            ''role_name'' \<mapsto> RoleName r]))
                     ''project_id'' (GString ?p))]"
    using Import_separator(2) [OF d' refl refl] ident by simp
  from split_first_dash [OF d] c r
  show "\<exists>projectID roleName.
         ident = projectID @ ''-'' @ roleName \<and> CHR ''-'' \<notin> set projectID \<and>
         calls (snd (resourceMongoDBAtlasCustomDBRoleImportState env s)) =
           calls s @ [GetCall projectID roleName] \<and>
         (\<forall>r remote'. roles_Get env projectID roleName (remote s) = (Inr r, remote') \<longrightarrow>
            fst (resourceMongoDBAtlasCustomDBRoleImportState env s) =
              Inr [snd (d_Set env
                     (d_SetId env (handle s)
                        (encodeStateID env [''project_id'' \<mapsto> projectID,
                                            ''role_name'' \<mapsto> RoleName r]))
                     ''project_id'' (GString projectID))])"
    by blast
next
  assume i: "ident = ''abc-def''"
  then have d': "CHR ''-'' \<in> set (d_Id env (handle s))" using ident by simp
  show "calls (snd (resourceMongoDBAtlasCustomDBRoleImportState env s)) =
        calls s @ [GetCall ''abc'' ''def'']"
    using Import_separator(1) [OF d' refl refl] ident i by simp
  fix r remote'
  assume "roles_Get env ''abc'' ''def'' (remote s) = (Inr r, remote')"
  then show "fst (resourceMongoDBAtlasCustomDBRoleImportState env s) =
           Inr [snd (d_Set env
                  (d_SetId env (handle s)
                     (encodeStateID env [''project_id'' \<mapsto> ''abc'',
                                         ''role_name'' \<mapsto> RoleName r]))
                  ''project_id'' (GString ''abc''))]"
    using Import_separator(2) [OF d' refl refl, of r remote'] ident i by simp
next
  assume "ident = ''abcdef''"
  then show "resourceMongoDBAtlasCustomDBRoleImportState env s =
      (Inl (Errorf import_format_msg), s)"
    using Import_no_separator [of env s] ident by simp
next
  assume i: "ident = ''a-b-c''"
  then have d': "CHR ''-'' \<in> set (d_Id env (handle s))" using ident by simp
  show "calls (snd (resourceMongoDBAtlasCustomDBRoleImportState env s)) =
        calls s @ [GetCall ''a'' ''b-c'']"
    using Import_separator(1) [OF d' refl refl] ident i by simp
  fix r remote'
  assume "roles_Get env ''a'' ''b-c'' (remote s) = (Inr r, remote')"
  then show "fst (resourceMongoDBAtlasCustomDBRoleImportState env s) =
           Inr [snd (d_Set env
                  (d_SetId env (handle s)
                     (encodeStateID env [''project_id'' \<mapsto> ''a'',
                                         ''role_name'' \<mapsto> RoleName r]))
                  ''project_id'' (GString ''a''))]"
    using Import_separator(2) [OF d' refl refl, of r remote'] ident i by simp
qed

theorem Import_splits_on_first_dash_witness:
  "fst (resourceMongoDBAtlasCustomDBRoleImportState memEnv
          \<lparr>handle = \<lparr>rd_id = ''abc-def'', rd_attrs = Map.empty, rd_changed = []\<rparr>,
           remote = readerRole\<lparr>RoleName := ''def''\<rparr>, calls = []\<rparr>) =
     Inr [\<lparr>rd_id = ''abc:def'', rd_attrs = [''project_id'' \<mapsto> GString ''abc''],
           rd_changed = []\<rparr>] \<and>
   calls (snd (resourceMongoDBAtlasCustomDBRoleImportState memEnv
          \<lparr>handle = \<lparr>rd_id = ''abc-def'', rd_attrs = Map.empty, rd_changed = []\<rparr>,
           remote = readerRole\<lparr>RoleName := ''def''\<rparr>, calls = []\<rparr>)) =
     [GetCall ''abc'' ''def''] \<and>
   resourceMongoDBAtlasCustomDBRoleImportState memEnv
          \<lparr>handle = \<lparr>rd_id = ''abcdef'', rd_attrs = Map.empty, rd_changed = []\<rparr>,
           remote = readerRole, calls = []\<rparr> =
     (Inl (Errorf import_format_msg),
      \<lparr>handle = \<lparr>rd_id = ''abcdef'', rd_attrs = Map.empty, rd_changed = []\<rparr>,
           remote = readerRole, calls = []\<rparr>)"
  using Import_splits_on_first_dash
    [where env = memEnv and ident = "''abc-def''"
       and s = "\<lparr>handle = \<lparr>rd_id = ''abc-def'', rd_attrs = Map.empty, rd_changed = []\<rparr>,
           remote = readerRole\<lparr>RoleName := ''def''\<rparr>, calls = []\<rparr>"]
    Import_splits_on_first_dash
    [where env = memEnv and ident = "''abcdef''"
       and s = "\<lparr>handle = \<lparr>rd_id = ''abcdef'', rd_attrs = Map.empty, rd_changed = []\<rparr>,
           remote = readerRole, calls = []\<rparr>"]
  by (simp add: memEnv_sel lookupStr_def)

section \<open>Properties of expand and flatten\<close>

lemma flatten_lengths:
  "length (flattenActionResources rs) = length rs"
  "length (flattenActions as) = length as"
  "length (flattenInheritedRoles roles) = length roles"
  by (induction rs, simp_all, induction as, simp_all, induction roles, simp_all)

lemma inherited_expand_flatten:
  "expandInheritedRoleList (map GMap (flattenInheritedRoles roles)) = Inr roles"
  by (induction roles) (simp_all add: index_def)

lemma expandActions_maps_panics:
  assumes "d_GetOk env d ''actions'' = (GMaps ms, True)"
  shows "expandActions env d = Inl conversion_panic"
  using assms by (simp add: expandActions_def)

lemma expandActionList_flattened_panics:
  "expandActionList (map GMap (flattenActions (a # as))) = Inl conversion_panic"
  by (simp add: index_def)

text \<open>
  Claim C2 says that expand after flatten gives the actions list back. The code does
  not: \<open>expandActions\<close> panics on every handle that holds an action. The handle
  returns the resources of an action as a set, and \<open>expandActions\<close> asserts a
  \<open>[]interface{}\<close> on them. The same assertion fails on the value that \<open>flattenActions\<close>
  itself produces for the resources, a slice of maps, whether the handle returns what
  Read stored as it is or the flattened actions are handed to the loop of
  \<open>expandActions\<close> entry by entry.
\<close>

theorem expand_after_flatten_panics:
  "(d_GetOk env d ''actions'' = (GList (GMap m # rest), True) \<and>
    m ''action'' = Some (GString action) \<and> m ''resources'' = Some (GSet items) \<longrightarrow>
      expandActions env d = Inl conversion_panic) \<and>
   (d_GetOk env d ''actions'' = (GMaps (flattenActions (a # as)), True) \<longrightarrow>
      expandActions env d = Inl conversion_panic) \<and>
   expandActionList (map GMap (flattenActions (a # as))) = Inl conversion_panic"
proof (intro conjI impI)
  assume "d_GetOk env d ''actions'' = (GList (GMap m # rest), True) \<and>
    m ''action'' = Some (GString action) \<and> m ''resources'' = Some (GSet items)"
  then show "expandActions env d = Inl conversion_panic"
    by (elim conjE) (rule expandActions_set_panics)
next
  assume "d_GetOk env d ''actions'' = (GMaps (flattenActions (a # as)), True)"
  then show "expandActions env d = Inl conversion_panic"
    by (rule expandActions_maps_panics)
next
  show "expandActionList (map GMap (flattenActions (a # as))) = Inl conversion_panic"
    by (rule expandActionList_flattened_panics)
qed

lemma Read_stores_flattened:
  "d_GetOk memEnv
     (handle (snd (resourceMongoDBAtlasCustomDBRoleRead memEnv
        \<lparr>handle = unchangedHandle, remote = readerRole, calls = []\<rparr>))) ''actions'' =
   (GMaps (flattenActions (Actions readerRole)), True)"
  by (simp add: resourceMongoDBAtlasCustomDBRoleRead_def memEnv_sel Let_def index_def
        readerRole_def)

theorem expand_after_flatten_panics_witness:
  "expandActions memEnv changedHandle = Inl conversion_panic \<and>
   expandActions memEnv
     (handle (snd (resourceMongoDBAtlasCustomDBRoleRead memEnv
        \<lparr>handle = unchangedHandle, remote = readerRole, calls = []\<rparr>))) =
     Inl conversion_panic"
proof -
  have a: "expandActions memEnv changedHandle = Inl conversion_panic"
    using expand_after_flatten_panics
      [where env = memEnv and d = changedHandle
         and m = "[''action'' \<mapsto> GString ''FIND'',
                   ''resources'' \<mapsto>
                     GSet [GMap [''collection_name'' \<mapsto> GString ''orders'',
                                 ''database_name'' \<mapsto> GString ''sales'',
                                 ''cluster'' \<mapsto> GBool False]]]"
         and rest = "[]" and action = "''FIND''"
         and items = "[GMap [''collection_name'' \<mapsto> GString ''orders'',
                             ''database_name'' \<mapsto> GString ''sales'',
                             ''cluster'' \<mapsto> GBool False]]", THEN conjunct1]
    by (simp add: configured_GetOk)
  have b: "expandActions memEnv
     (handle (snd (resourceMongoDBAtlasCustomDBRoleRead memEnv
        \<lparr>handle = unchangedHandle, remote = readerRole, calls = []\<rparr>))) =
     Inl conversion_panic"
    using expand_after_flatten_panics
      [where env = memEnv
         and d = "handle (snd (resourceMongoDBAtlasCustomDBRoleRead memEnv
            \<lparr>handle = unchangedHandle, remote = readerRole, calls = []\<rparr>))"
         and a = "hd (Actions readerRole)" and as = "tl (Actions readerRole)",
       THEN conjunct2, THEN conjunct1]
      Read_stores_flattened
    by (simp add: readerRole_def)
  from a b show ?thesis by simp
qed

section \<open>Properties of the schema construction\<close>

lemma role_name_charset_compiles: "MustCompile role_name_charset = Some (Inr role_name_charset)"
  by (simp add: MustCompile_def role_name_charset_def backslash_def parseClass.simps
        classItem_def)

lemma role_name_atlasAdmin_compiles:
  "MustCompile role_name_atlasAdmin = Some (Inr role_name_atlasAdmin)"
  by (simp add: MustCompile_def role_name_atlasAdmin_def backslash_def)

lemma role_name_xgen_panics:
  "MustCompile role_name_xgen =
     Some (Inl (Panic ''regexp: Compile: error parsing regexp: invalid or unsupported Perl syntax''))"
  by (simp add: MustCompile_def role_name_xgen_def backslash_def)

text \<open>
  Claim C9 says that constructing the schema never panics because every pattern of the
  \<open>role_name\<close> check compiles. The code does not meet it: the first two patterns
  compile, but the third opens a group with \<open>(?!\<close>, which Go's parser rejects, so
  \<open>MustCompile\<close> panics and with it the construction of the schema.
\<close>

theorem resourceMongoDBAtlasCustomDBRole_panics:
  "resourceMongoDBAtlasCustomDBRole =
     Some (Inl (Panic ''regexp: Compile: error parsing regexp: invalid or unsupported Perl syntax''))"
  by (simp add: resourceMongoDBAtlasCustomDBRole_def role_name_charset_compiles
        role_name_atlasAdmin_compiles role_name_xgen_panics)

end
